theory Spec2Isabelle
  imports Complex_Main "HOL-Library.AList"
begin

section \<open>JobsDB: data model\<close>

text \<open>
  A shallow embedding of \<^verbatim>\<open>jobsdb/jobsdb.go\<close>.  Timestamps are integers (a clock
  reading), UUIDs and JSON payloads are strings, Go's \<^verbatim>\<open>int\<close> and \<^verbatim>\<open>int64\<close> are
  unbounded integers (no claim depends on 64-bit overflow).  A panic (a failed
  \<^verbatim>\<open>assert\<close>, a database error passed to \<^verbatim>\<open>assertError\<close>, a Go run-time panic) is the
  left injection of the result type.  The locks are not modelled: the embedding is of
  one thread of execution.
\<close>

record JobStatusT =
  sJobID :: int
  JobState :: string
  AttemptNum :: int
  ExecTime :: int
  RetryTime :: int
  ErrorCode :: string
  ErrorResponse :: string

record JobT =
  UUID :: string
  JobID :: int
  CreatedAt :: int
  ExpireAt :: int
  CustomVal :: string
  EventPayload :: string
  LastJobStatus :: JobStatusT

record dataSetT =
  JobTable :: string
  JobStatusTable :: string
  Index :: string

record dataSetRangeT =
  minJobID :: int
  maxJobID :: int
  ds :: dataSetT

datatype error =
    AssertFailed string
  | DBError string
  | RuntimePanic string

text \<open>The zero value of \<^verbatim>\<open>JobStatusT\<close>, as Go leaves a field that is never scanned.\<close>

definition zeroJobStatus :: JobStatusT where
  "zeroJobStatus = \<lparr>sJobID = 0, JobState = [], AttemptNum = 0, ExecTime = 0, RetryTime = 0,
     ErrorCode = [], ErrorResponse = []\<rparr>"

subsection \<open>The relational store\<close>

text \<open>
  The tables are modelled from the \<^verbatim>\<open>CREATE TABLE\<close> statements of \<^verbatim>\<open>addNewDS\<close>: a jobs
  table with primary key \<^verbatim>\<open>job_id\<close> (a \<^verbatim>\<open>BIGSERIAL\<close>, so the table owns a sequence),
  a status table with primary key \<^verbatim>\<open>id\<close> (also a \<^verbatim>\<open>BIGSERIAL\<close>), a foreign key from
  \<^verbatim>\<open>job_status.job_id\<close> to the jobs table, and the enumerated type \<^verbatim>\<open>job_state_type\<close> of
  \<^verbatim>\<open>setupEnumTypes\<close>.  Primary keys, the foreign key and the enumeration are enforced;
  column widths and JSON well-formedness are not represented.  Tables are kept in
  association lists whose order is the order the catalogue returns their names in; a
  query with no \<^verbatim>\<open>ORDER BY\<close> returns rows in insertion order.
\<close>

record jobRow =
  j_job_id :: int
  j_uuid :: string
  j_custom_val :: string
  j_event_payload :: string
  j_created_at :: int
  j_expire_at :: int

record statusRow =
  s_id :: int
  s_job_id :: int
  s_job_state :: string
  s_attempt :: int
  s_exec_time :: int
  s_retry_time :: int
  s_error_code :: string
  s_error_response :: string

record sequenceT =
  last_value :: int
  is_called :: bool

record jobsTableT =
  jobRows :: "jobRow list"
  jobSeq :: sequenceT

record statusTableT =
  statusRows :: "statusRow list"
  statusSeq :: sequenceT
  statusRef :: string

record journalRow =
  jr_id :: int
  jr_operation :: string
  jr_done :: bool
  jr_from :: "dataSetT list"
  jr_to :: dataSetT

record journalTableT =
  journalRows :: "journalRow list"
  journalSeq :: sequenceT

record database =
  jobsTables :: "(string \<times> jobsTableT) list"
  statusTables :: "(string \<times> statusTableT) list"
  journalTable :: "journalTableT option"

text \<open>A fresh serial sequence; \<^verbatim>\<open>nextval\<close> and \<^verbatim>\<open>setval\<close> as PostgreSQL defines them.\<close>

definition newSequence :: sequenceT where
  "newSequence = \<lparr>last_value = 1, is_called = False\<rparr>"

definition nextval :: "sequenceT \<Rightarrow> int \<times> sequenceT" where
  "nextval sq =
     (let v = (if is_called sq then last_value sq + 1 else last_value sq)
      in (v, \<lparr>last_value = v, is_called = True\<rparr>))"

definition setval :: "int \<Rightarrow> sequenceT" where
  "setval v = \<lparr>last_value = v, is_called = True\<rparr>"

definition job_state_type :: "string list" where
  "job_state_type =
     [''waiting'', ''executing'', ''succeeded'', ''waiting_retry'', ''failed'', ''aborted'']"

text \<open>What the handle sends to the database, and each acquisition of the cache mutex.\<close>

datatype sqlStmt =
    SelectTableNames
  | SelectMinMaxJobID string
  | SelectCountJobs string
  | SelectCountTerminal string
  | SelectCountStatus string
  | SelectMaxCreatedAt string
  | SelectUnprocessed string string
  | SelectProcessed string string
  | CreateJobsTable string
  | CreateStatusTable string string
  | Setval string int
  | TxnBegin
  | CopyInJobs string nat
  | CopyInStatus string nat
  | TxnCommit
  | InsertJournal string
  | UpdateJournalDone int

datatype event = DB sqlStmt | CacheLock

record HandleT =
  dbHandle :: database
  tablePrefix :: string
  datasetList :: "dataSetT list"
  datasetRangeList :: "dataSetRangeT list"
  dsRetentionPeriod :: int
  dsEmptyResultCache :: "dataSetT \<rightharpoonup> (string \<rightharpoonup> (string \<rightharpoonup> bool))"
  trace :: "event list"

definition logDB :: "sqlStmt \<Rightarrow> HandleT \<Rightarrow> HandleT" where
  "logDB q jd = jd\<lparr>trace := trace jd @ [DB q]\<rparr>"

section \<open>Helper functions and constants\<close>

definition validJobStates :: "(string \<times> bool) list" where
  "validJobStates =
     [(''NP'', False), (''succeeded'', True), (''failed'', True), (''executing'', True),
      (''aborted'', True), (''waiting'', True), (''waiting_retry'', True)]"

fun checkValidJobState :: "string list \<Rightarrow> error + unit" where
  "checkValidJobState [] = Inr ()"
| "checkValidJobState (st # rest) =
     (case map_of validJobStates st of
        None \<Rightarrow> Inl (AssertFailed ''checkValidJobState'')
      | Some ok \<Rightarrow> checkValidJobState rest)"

definition maxDSSize :: int where
  "maxDSSize = 100000"

definition maxMigrateOnce :: nat where
  "maxMigrateOnce = 10"

section \<open>Empty-result cache\<close>

fun markStates :: "string list \<Rightarrow> bool \<Rightarrow> (string \<rightharpoonup> bool) \<Rightarrow> (string \<rightharpoonup> bool)" where
  "markStates [] mark m = m"
| "markStates (st # rest) mark m = markStates rest mark (m(st \<mapsto> mark))"

fun markCustomVals ::
  "string list \<Rightarrow> string list \<Rightarrow> bool \<Rightarrow> (string \<rightharpoonup> (string \<rightharpoonup> bool))
     \<Rightarrow> (string \<rightharpoonup> (string \<rightharpoonup> bool))" where
  "markCustomVals [] stateFilters mark m = m"
| "markCustomVals (cVal # rest) stateFilters mark m =
     (let inner = (case m cVal of None \<Rightarrow> Map.empty | Some i \<Rightarrow> i)
      in markCustomVals rest stateFilters mark (m(cVal \<mapsto> markStates stateFilters mark inner)))"

definition markClearEmptyResult ::
  "dataSetT \<Rightarrow> string list \<Rightarrow> string list \<Rightarrow> bool \<Rightarrow> HandleT \<Rightarrow> HandleT" where
  "markClearEmptyResult d stateFilters customValFilters mark jd =
     (let jd1 = jd\<lparr>trace := trace jd @ [CacheLock]\<rparr> in
      if stateFilters = [] \<or> customValFilters = [] then
        (if mark = False
         then jd1\<lparr>dsEmptyResultCache := (dsEmptyResultCache jd1)(d := None)\<rparr>
         else jd1)
      else
        (let c0 = (case dsEmptyResultCache jd1 d of None \<Rightarrow> Map.empty | Some m \<Rightarrow> m)
         in jd1\<lparr>dsEmptyResultCache :=
               (dsEmptyResultCache jd1)(d \<mapsto> markCustomVals customValFilters stateFilters mark c0)\<rparr>))"

fun allStatesMarked :: "string list \<Rightarrow> (string \<rightharpoonup> bool) \<Rightarrow> bool" where
  "allStatesMarked [] m = True"
| "allStatesMarked (st # rest) m =
     (case m st of
        None \<Rightarrow> False
      | Some mark \<Rightarrow> if mark = False then False else allStatesMarked rest m)"

fun allCustomValsMarked ::
  "string list \<Rightarrow> string list \<Rightarrow> (string \<rightharpoonup> (string \<rightharpoonup> bool)) \<Rightarrow> bool" where
  "allCustomValsMarked [] stateFilters m = True"
| "allCustomValsMarked (cVal # rest) stateFilters m =
     (case m cVal of
        None \<Rightarrow> False
      | Some inner \<Rightarrow>
          if allStatesMarked stateFilters inner
          then allCustomValsMarked rest stateFilters m else False)"

definition isEmptyResult ::
  "dataSetT \<Rightarrow> string list \<Rightarrow> string list \<Rightarrow> HandleT \<Rightarrow> bool \<times> HandleT" where
  "isEmptyResult d stateFilters customValFilters jd =
     (let jd1 = jd\<lparr>trace := trace jd @ [CacheLock]\<rparr> in
      case dsEmptyResultCache jd d of
        None \<Rightarrow> (False, jd1)
      | Some m \<Rightarrow>
          if stateFilters = [] \<or> customValFilters = [] then (False, jd1)
          else (allCustomValsMarked customValFilters stateFilters m, jd1))"

section \<open>The SQL statements the handle issues\<close>

text \<open>
  Each function below gives the meaning of one SQL statement of the source on the
  modelled store.  A statement on a table that does not exist is a database error.
\<close>

definition customValMatch :: "string list \<Rightarrow> jobRow \<Rightarrow> bool" where
  "customValMatch customValFilters j =
     (customValFilters = [] \<or> j_custom_val j \<in> set customValFilters)"

definition stateMatch :: "string list \<Rightarrow> statusRow \<Rightarrow> bool" where
  "stateMatch stateFilters r = (stateFilters = [] \<or> s_job_state r \<in> set stateFilters)"

definition limitRows :: "int \<Rightarrow> 'a list \<Rightarrow> 'a list" where
  "limitRows n rows = (if n > 0 then take (nat n) rows else rows)"

text \<open>
  \<^verbatim>\<open>SELECT ... FROM jobs LEFT JOIN job_status ON jobs.job_id = job_status.job_id
  WHERE job_status.job_id IS NULL [AND (custom_val = ... OR ...)] [ORDER BY job_id] [LIMIT n]\<close>
\<close>

definition sqlSelectUnprocessed ::
  "database \<Rightarrow> string \<Rightarrow> string \<Rightarrow> string list \<Rightarrow> bool \<Rightarrow> int \<Rightarrow> error + jobRow list" where
  "sqlSelectUnprocessed db jt st customValFilters order count =
     (case map_of (jobsTables db) jt of
        None \<Rightarrow> Inl (DBError ''relation does not exist'')
      | Some jtab \<Rightarrow>
     (case map_of (statusTables db) st of
        None \<Rightarrow> Inl (DBError ''relation does not exist'')
      | Some stab \<Rightarrow>
          (let rows0 = filter (\<lambda>j. j_job_id j \<notin> set (map s_job_id (statusRows stab)))
                         (jobRows jtab);
               rows1 = filter (customValMatch customValFilters) rows0;
               rows2 = (if order then sort_key j_job_id rows1 else rows1)
           in Inr (limitRows count rows2))))"

text \<open>\<^verbatim>\<open>id IN (SELECT MAX(id) FROM job_status GROUP BY job_id)\<close>\<close>

definition maxIdOfJob :: "statusRow list \<Rightarrow> int \<Rightarrow> int" where
  "maxIdOfJob rows jid = Max (set (map s_id (filter (\<lambda>r. s_job_id r = jid) rows)))"

definition latestStatusRows :: "statusRow list \<Rightarrow> statusRow list" where
  "latestStatusRows rows =
     filter (\<lambda>r. s_id r \<in> set (map (maxIdOfJob rows) (map s_job_id rows))) rows"

definition joinLatest :: "jobRow list \<Rightarrow> statusRow list \<Rightarrow> (jobRow \<times> statusRow) list" where
  "joinLatest jobs latest =
     concat (map (\<lambda>j. map (\<lambda>r. (j, r)) (filter (\<lambda>r. j_job_id j = s_job_id r) latest)) jobs)"

text \<open>
  The two queries of \<^verbatim>\<open>getProcessedJobsDS\<close>.  A state filter that is not a label of
  \<^verbatim>\<open>job_state_type\<close> is rejected by the database when it compares the column with it.
\<close>

definition sqlSelectProcessedAll ::
  "database \<Rightarrow> string \<Rightarrow> string \<Rightarrow> string list \<Rightarrow> error + (jobRow \<times> statusRow) list" where
  "sqlSelectProcessedAll db jt st stateFilters =
     (case map_of (jobsTables db) jt of
        None \<Rightarrow> Inl (DBError ''relation does not exist'')
      | Some jtab \<Rightarrow>
     (case map_of (statusTables db) st of
        None \<Rightarrow> Inl (DBError ''relation does not exist'')
      | Some stab \<Rightarrow>
          if set stateFilters \<subseteq> set job_state_type then
            Inr (joinLatest (jobRows jtab)
                   (filter (stateMatch stateFilters) (latestStatusRows (statusRows stab))))
          else Inl (DBError ''invalid input value for enum job_state_type'')))"

definition sqlSelectProcessed ::
  "database \<Rightarrow> string \<Rightarrow> string \<Rightarrow> string list \<Rightarrow> string list \<Rightarrow> int \<Rightarrow> int
     \<Rightarrow> error + (jobRow \<times> statusRow) list" where
  "sqlSelectProcessed db jt st stateFilters customValFilters limitCount now =
     (case map_of (jobsTables db) jt of
        None \<Rightarrow> Inl (DBError ''relation does not exist'')
      | Some jtab \<Rightarrow>
     (case map_of (statusTables db) st of
        None \<Rightarrow> Inl (DBError ''relation does not exist'')
      | Some stab \<Rightarrow>
          if set stateFilters \<subseteq> set job_state_type then
            (let joined = joinLatest (jobRows jtab)
                   (filter (stateMatch stateFilters) (latestStatusRows (statusRows stab)));
                 rows1 = filter (\<lambda>(j, r). customValMatch customValFilters j \<and> s_retry_time r < now)
                           joined;
                 rows2 = sort_key (\<lambda>(j, r). j_job_id j) rows1
             in Inr (limitRows limitCount rows2))
          else Inl (DBError ''invalid input value for enum job_state_type'')))"

text \<open>Bulk copy into a jobs table (\<^verbatim>\<open>pq.CopyIn\<close> inside one transaction).\<close>

definition jobToRow :: "int \<Rightarrow> JobT \<Rightarrow> jobRow" where
  "jobToRow jid job =
     \<lparr>j_job_id = jid, j_uuid = UUID job, j_custom_val = CustomVal job,
      j_event_payload = EventPayload job, j_created_at = CreatedAt job,
      j_expire_at = ExpireAt job\<rparr>"

fun insertJobs :: "bool \<Rightarrow> JobT list \<Rightarrow> jobsTableT \<Rightarrow> error + jobsTableT" where
  "insertJobs copyID [] tb = Inr tb"
| "insertJobs copyID (job # rest) tb =
     (let (jid, sq) = (if copyID then (JobID job, jobSeq tb) else nextval (jobSeq tb)) in
      if jid \<in> set (map j_job_id (jobRows tb))
      then Inl (DBError ''duplicate key value violates unique constraint'')
      else insertJobs copyID rest
             (tb\<lparr>jobRows := jobRows tb @ [jobToRow jid job], jobSeq := sq\<rparr>))"

definition sqlCopyInJobs :: "database \<Rightarrow> string \<Rightarrow> bool \<Rightarrow> JobT list \<Rightarrow> error + database" where
  "sqlCopyInJobs db jt copyID jobList =
     (case map_of (jobsTables db) jt of
        None \<Rightarrow> Inl (DBError ''relation does not exist'')
      | Some tb \<Rightarrow>
          (case insertJobs copyID jobList tb of
             Inl e \<Rightarrow> Inl e
           | Inr tb' \<Rightarrow> Inr (db\<lparr>jobsTables := AList.update jt tb' (jobsTables db)\<rparr>)))"

text \<open>Bulk copy into a status table; \<^verbatim>\<open>id\<close> comes from the table's sequence.\<close>

definition statusToRow :: "int \<Rightarrow> JobStatusT \<Rightarrow> statusRow" where
  "statusToRow sid status =
     \<lparr>s_id = sid, s_job_id = sJobID status, s_job_state = JobState status,
      s_attempt = AttemptNum status, s_exec_time = ExecTime status,
      s_retry_time = RetryTime status, s_error_code = ErrorCode status,
      s_error_response = ErrorResponse status\<rparr>"

fun insertStatuses :: "int list \<Rightarrow> JobStatusT list \<Rightarrow> statusTableT \<Rightarrow> error + statusTableT" where
  "insertStatuses jobIds [] tb = Inr tb"
| "insertStatuses jobIds (status # rest) tb =
     (let (sid, sq) = nextval (statusSeq tb) in
      if sid \<in> set (map s_id (statusRows tb))
      then Inl (DBError ''duplicate key value violates unique constraint'')
      else if sJobID status \<notin> set jobIds
      then Inl (DBError ''violates foreign key constraint'')
      else if JobState status \<notin> set job_state_type
      then Inl (DBError ''invalid input value for enum job_state_type'')
      else insertStatuses jobIds rest
             (tb\<lparr>statusRows := statusRows tb @ [statusToRow sid status], statusSeq := sq\<rparr>))"

definition sqlCopyInStatus :: "database \<Rightarrow> string \<Rightarrow> JobStatusT list \<Rightarrow> error + database" where
  "sqlCopyInStatus db st statusList =
     (case map_of (statusTables db) st of
        None \<Rightarrow> Inl (DBError ''relation does not exist'')
      | Some tb \<Rightarrow>
     (case map_of (jobsTables db) (statusRef tb) of
        None \<Rightarrow> Inl (DBError ''relation does not exist'')
      | Some jtab \<Rightarrow>
          (case insertStatuses (map j_job_id (jobRows jtab)) statusList tb of
             Inl e \<Rightarrow> Inl e
           | Inr tb' \<Rightarrow> Inr (db\<lparr>statusTables := AList.update st tb' (statusTables db)\<rparr>))))"

section \<open>Reading and writing one dataset\<close>

definition storeJobsDS :: "dataSetT \<Rightarrow> bool \<Rightarrow> JobT list \<Rightarrow> HandleT \<Rightarrow> error + HandleT" where
  "storeJobsDS d copyID jobList jd =
     (case sqlCopyInJobs (dbHandle jd) (JobTable d) copyID jobList of
        Inl e \<Rightarrow> Inl e
      | Inr db' \<Rightarrow>
          (let jd1 = logDB TxnCommit
                       (logDB (CopyInJobs (JobTable d) (length jobList)) (logDB TxnBegin jd));
               jd2 = jd1\<lparr>dbHandle := db'\<rparr>
           in Inr (markClearEmptyResult d [] [] False jd2)))"

definition scanJob :: "jobRow \<Rightarrow> JobT" where
  "scanJob j =
     \<lparr>UUID = j_uuid j, JobID = j_job_id j, CreatedAt = j_created_at j,
      ExpireAt = j_expire_at j, CustomVal = j_custom_val j,
      EventPayload = j_event_payload j, LastJobStatus = zeroJobStatus\<rparr>"

definition scanJobWithStatus :: "jobRow \<times> statusRow \<Rightarrow> JobT" where
  "scanJobWithStatus jr =
     (case jr of (j, r) \<Rightarrow>
        (scanJob j)\<lparr>LastJobStatus :=
           \<lparr>sJobID = 0, JobState = s_job_state r, AttemptNum = s_attempt r,
            ExecTime = s_exec_time r, RetryTime = s_retry_time r,
            ErrorCode = s_error_code r, ErrorResponse = s_error_response r\<rparr>\<rparr>)"

text \<open>\<^verbatim>\<open>now\<close> is the value \<^verbatim>\<open>time.Now()\<close> returns when the query is sent.\<close>

definition getProcessedJobsDS ::
  "dataSetT \<Rightarrow> bool \<Rightarrow> string list \<Rightarrow> string list \<Rightarrow> int \<Rightarrow> int \<Rightarrow> HandleT
     \<Rightarrow> error + (JobT list \<times> HandleT)" where
  "getProcessedJobsDS d getAll stateFilters customValFilters limitCount now jd =
     (case checkValidJobState stateFilters of
        Inl e \<Rightarrow> Inl e
      | Inr u \<Rightarrow>
     (case isEmptyResult d stateFilters customValFilters jd of
        (isEmpty, jd1) \<Rightarrow>
          if isEmpty then Inr ([], jd1)
          else if customValFilters \<noteq> [] \<and> getAll then Inl (AssertFailed ''!getAll'')
          else if limitCount > 0 \<and> getAll then Inl (AssertFailed ''!getAll'')
          else
            (case (if getAll
                   then sqlSelectProcessedAll (dbHandle jd1) (JobTable d) (JobStatusTable d)
                          stateFilters
                   else sqlSelectProcessed (dbHandle jd1) (JobTable d) (JobStatusTable d)
                          stateFilters customValFilters limitCount now) of
               Inl e \<Rightarrow> Inl e
             | Inr rows \<Rightarrow>
                 (let jd2 = logDB (SelectProcessed (JobTable d) (JobStatusTable d)) jd1;
                      jobList = map scanJobWithStatus rows
                  in if jobList = []
                     then Inr (jobList, markClearEmptyResult d stateFilters customValFilters True jd2)
                     else Inr (jobList, jd2)))))"

definition getUnprocessedJobsDS ::
  "dataSetT \<Rightarrow> string list \<Rightarrow> bool \<Rightarrow> int \<Rightarrow> HandleT \<Rightarrow> error + (JobT list \<times> HandleT)" where
  "getUnprocessedJobsDS d customValFilters order count jd =
     (case isEmptyResult d [''NP''] customValFilters jd of
        (isEmpty, jd1) \<Rightarrow>
          if isEmpty then Inr ([], jd1)
          else
            (case sqlSelectUnprocessed (dbHandle jd1) (JobTable d) (JobStatusTable d)
                    customValFilters order count of
               Inl e \<Rightarrow> Inl e
             | Inr rows \<Rightarrow>
                 (let jd2 = logDB (SelectUnprocessed (JobTable d) (JobStatusTable d)) jd1;
                      jobList = map scanJob rows
                  in if jobList = []
                     then Inr (jobList, markClearEmptyResult d [''NP''] customValFilters True jd2)
                     else Inr (jobList, jd2))))"

text \<open>
  The states written are collected in a Go map and read back in no fixed order;
  \<^verbatim>\<open>markClearEmptyResult\<close> with \<^verbatim>\<open>mark = false\<close> does not depend on that order.
\<close>

definition updateJobStatusDS ::
  "dataSetT \<Rightarrow> JobStatusT list \<Rightarrow> string list \<Rightarrow> HandleT \<Rightarrow> error + HandleT" where
  "updateJobStatusDS d statusList customValFilters jd =
     (if statusList = [] then Inr jd
      else
        (case sqlCopyInStatus (dbHandle jd) (JobStatusTable d) statusList of
           Inl e \<Rightarrow> Inl e
         | Inr db' \<Rightarrow>
             (let jd1 = logDB TxnCommit
                          (logDB (CopyInStatus (JobStatusTable d) (length statusList))
                             (logDB TxnBegin jd));
                  jd2 = jd1\<lparr>dbHandle := db'\<rparr>;
                  stateFilters = remdups (map JobState statusList)
              in Inr (markClearEmptyResult d stateFilters customValFilters False jd2))))"

section \<open>The user-visible functions\<close>

text \<open>
  The clock is read once for each dataset a call visits; the model gives every read of
  one call the same value \<^verbatim>\<open>now\<close>.
\<close>

fun getUnprocessedLoop ::
  "dataSetT list \<Rightarrow> string list \<Rightarrow> int \<Rightarrow> JobT list \<Rightarrow> HandleT \<Rightarrow> error + (JobT list \<times> HandleT)" where
  "getUnprocessedLoop [] customValFilters count outJobs jd = Inr (outJobs, jd)"
| "getUnprocessedLoop (d # rest) customValFilters count outJobs jd =
     (if count > 0 then
        (case getUnprocessedJobsDS d customValFilters True count jd of
           Inl e \<Rightarrow> Inl e
         | Inr (jobs, jd') \<Rightarrow>
             (let outJobs' = outJobs @ jobs; count' = count - int (length jobs) in
              if count' \<ge> 0 then
                (if count' = 0 then Inr (outJobs', jd')
                 else getUnprocessedLoop rest customValFilters count' outJobs' jd')
              else Inl (AssertFailed ''count >= 0'')))
      else Inl (AssertFailed ''count > 0''))"

definition GetUnprocessed :: "string list \<Rightarrow> int \<Rightarrow> HandleT \<Rightarrow> error + (JobT list \<times> HandleT)" where
  "GetUnprocessed customValFilters count jd =
     (let dsList = datasetList jd; outJobs = [] in
      if count \<ge> 0 then
        (if count = 0 then Inr (outJobs, jd)
         else getUnprocessedLoop dsList customValFilters count outJobs jd)
      else Inl (AssertFailed ''count >= 0''))"

fun getProcessedLoop ::
  "dataSetT list \<Rightarrow> string list \<Rightarrow> string list \<Rightarrow> int \<Rightarrow> int \<Rightarrow> JobT list \<Rightarrow> HandleT
     \<Rightarrow> error + (JobT list \<times> HandleT)" where
  "getProcessedLoop [] stateFilter customValFilters count now outJobs jd = Inr (outJobs, jd)"
| "getProcessedLoop (d # rest) stateFilter customValFilters count now outJobs jd =
     (if count > 0 then
        (case getProcessedJobsDS d False stateFilter customValFilters count now jd of
           Inl e \<Rightarrow> Inl e
         | Inr (jobs, jd') \<Rightarrow>
             (let outJobs' = outJobs @ jobs; count' = count - int (length jobs) in
              if count' \<ge> 0 then
                (if count' = 0 then Inr (outJobs', jd')
                 else getProcessedLoop rest stateFilter customValFilters count' now outJobs' jd')
              else Inl (AssertFailed ''count >= 0'')))
      else Inl (AssertFailed ''count > 0''))"

definition GetProcessed ::
  "string list \<Rightarrow> string list \<Rightarrow> int \<Rightarrow> int \<Rightarrow> HandleT \<Rightarrow> error + (JobT list \<times> HandleT)" where
  "GetProcessed stateFilter customValFilters count now jd =
     (let dsList = datasetList jd; outJobs = [] in
      if count \<ge> 0 then
        (if count = 0 then Inr (outJobs, jd)
         else getProcessedLoop dsList stateFilter customValFilters count now outJobs jd)
      else Inl (AssertFailed ''count >= 0''))"

definition GetToRetry :: "string list \<Rightarrow> int \<Rightarrow> int \<Rightarrow> HandleT \<Rightarrow> error + (JobT list \<times> HandleT)" where
  "GetToRetry customValFilters count now jd = GetProcessed [''failed''] customValFilters count now jd"

definition GetWaiting :: "string list \<Rightarrow> int \<Rightarrow> int \<Rightarrow> HandleT \<Rightarrow> error + (JobT list \<times> HandleT)" where
  "GetWaiting customValFilters count now jd = GetProcessed [''waiting''] customValFilters count now jd"

definition GetExecuting :: "string list \<Rightarrow> int \<Rightarrow> int \<Rightarrow> HandleT \<Rightarrow> error + (JobT list \<times> HandleT)" where
  "GetExecuting customValFilters count now jd =
     GetProcessed [''executing''] customValFilters count now jd"

definition Store :: "JobT list \<Rightarrow> HandleT \<Rightarrow> error + HandleT" where
  "Store jobList jd =
     (let dsList = datasetList jd in
      if dsList = [] then Inl (RuntimePanic ''index out of range'')
      else storeJobsDS (last dsList) False jobList jd)"

text \<open>
  \<^verbatim>\<open>UpdateJobStatus\<close>.  \<^verbatim>\<open>sort.Slice\<close> leaves elements with equal keys in no fixed
  order; the model sorts stably.  \<^verbatim>\<open>innerLoop\<close> is the loop over \<^verbatim>\<open>i\<close>: it returns the
  first index from \<^verbatim>\<open>lastPos\<close> on whose job id exceeds \<^verbatim>\<open>maxID\<close> (the loop was left by
  \<^verbatim>\<open>break\<close>), or the length of the list.
\<close>

function innerLoop :: "JobStatusT list \<Rightarrow> int \<Rightarrow> nat \<Rightarrow> nat" where
  "innerLoop statusList maxID i =
     (if i < length statusList then
        (if sJobID (statusList ! i) > maxID then i
         else innerLoop statusList maxID (Suc i))
      else i)"
  by pat_completeness auto
termination
  by (relation "measure (\<lambda>(statusList, maxID, i). length statusList - i)") auto

declare innerLoop.simps [simp del]

definition slice :: "'a list \<Rightarrow> nat \<Rightarrow> nat \<Rightarrow> 'a list" where
  "slice xs lo hi = take (hi - lo) (drop lo xs)"

fun rangeLoop ::
  "dataSetRangeT list \<Rightarrow> JobStatusT list \<Rightarrow> string list \<Rightarrow> nat \<Rightarrow> HandleT
     \<Rightarrow> error + (nat \<times> HandleT)" where
  "rangeLoop [] statusList customValFilters lastPos jd = Inr (lastPos, jd)"
| "rangeLoop (r # rest) statusList customValFilters lastPos jd =
     (if lastPos < length statusList then
        (if sJobID (statusList ! lastPos) \<ge> minJobID r then
           (let i = innerLoop statusList (maxJobID r) lastPos in
            if i < length statusList then
              (case updateJobStatusDS (ds r) (slice statusList lastPos i) customValFilters jd of
                 Inl e \<Rightarrow> Inl e
               | Inr jd' \<Rightarrow> rangeLoop rest statusList customValFilters i jd')
            else if lastPos < i then
              (case updateJobStatusDS (ds r) (slice statusList lastPos i) customValFilters jd of
                 Inl e \<Rightarrow> Inl e
               | Inr jd' \<Rightarrow> Inr (i, jd'))
            else rangeLoop rest statusList customValFilters lastPos jd)
         else Inl (AssertFailed ''statusList[lastPos].JobID >= minID''))
      else Inl (RuntimePanic ''index out of range''))"

definition UpdateJobStatus :: "JobStatusT list \<Rightarrow> string list \<Rightarrow> HandleT \<Rightarrow> error + HandleT" where
  "UpdateJobStatus statusList customValFilters jd =
     (let sortedList = sort_key sJobID statusList;
          dsRangeList = datasetRangeList jd
      in case rangeLoop dsRangeList sortedList customValFilters 0 jd of
           Inl e \<Rightarrow> Inl e
         | Inr (lastPos, jd1) \<Rightarrow>
             if lastPos < length sortedList then
               (let dsList = datasetList jd1 in
                if int (length dsRangeList) = int (length dsList) - 1 then
                  updateJobStatusDS (last dsList) (drop lastPos sortedList) customValFilters jd1
                else Inl (AssertFailed ''len(dsRangeList) == len(dsList)-1''))
             else Inr jd1)"

section \<open>The dataset catalogue\<close>

text \<open>\<^verbatim>\<open>strings.Split(s, "_")\<close>, \<^verbatim>\<open>strconv.Atoi\<close> and \<^verbatim>\<open>fmt.Sprintf("%d", n)\<close>.\<close>

fun splitUnderscore :: "string \<Rightarrow> string list" where
  "splitUnderscore [] = [[]]"
| "splitUnderscore (c # cs) =
     (if c = CHR ''_'' then [] # splitUnderscore cs
      else (case splitUnderscore cs of
              [] \<Rightarrow> [[c]]
            | w # ws \<Rightarrow> (c # w) # ws))"

definition digitVal :: "char \<Rightarrow> nat option" where
  "digitVal c =
     (let n = (of_char c :: nat) in if 48 \<le> n \<and> n \<le> 57 then Some (n - 48) else None)"

fun parseDigits :: "string \<Rightarrow> nat \<Rightarrow> nat option" where
  "parseDigits [] acc = Some acc"
| "parseDigits (c # cs) acc =
     (case digitVal c of None \<Rightarrow> None | Some v \<Rightarrow> parseDigits cs (10 * acc + v))"

definition Atoi :: "string \<Rightarrow> error + int" where
  "Atoi s =
     (let neg = (s \<noteq> [] \<and> hd s = CHR ''-'');
          body = (if s \<noteq> [] \<and> (hd s = CHR ''-'' \<or> hd s = CHR ''+'') then tl s else s)
      in if body = [] then Inl (RuntimePanic ''strconv.Atoi: invalid syntax'')
         else (case parseDigits body 0 of
                 None \<Rightarrow> Inl (RuntimePanic ''strconv.Atoi: invalid syntax'')
               | Some n \<Rightarrow>
                   (let v = (if neg then - int n else int n) in
                    if - (2 ^ 63) \<le> v \<and> v < 2 ^ 63 then Inr v
                    else Inl (RuntimePanic ''strconv.Atoi: value out of range''))))"

fun showNat :: "nat \<Rightarrow> string" where
  "showNat n =
     (if n < 10 then [''0123456789'' ! n]
      else showNat (n div 10) @ [''0123456789'' ! (n mod 10)])"

declare showNat.simps [simp del]

definition Sprintf_d :: "int \<Rightarrow> string" where
  "Sprintf_d n = (if n < 0 then CHR ''-'' # showNat (nat (- n)) else showNat (nat n))"

text \<open>
  The comparison function \<^verbatim>\<open>getDSList\<close> passes to \<^verbatim>\<open>sort.Slice\<close>, on the two indices
  already split at the underscores.
\<close>

function lessLoop :: "string list \<Rightarrow> string list \<Rightarrow> nat \<Rightarrow> error + bool" where
  "lessLoop src dst k =
     (if k \<ge> length src then
        (if k < length dst then
           (if k > 0 then Inr True else Inl (AssertFailed ''k > 0''))
         else Inl (AssertFailed ''k < len(dst)''))
      else if k \<ge> length dst then
        (if k > 0 then Inr False else Inl (AssertFailed ''k > 0''))
      else if src ! k = dst ! k then lessLoop src dst (Suc k)
      else
        (case Atoi (src ! k) of
           Inl e \<Rightarrow> Inl e
         | Inr srcInt \<Rightarrow>
             (case Atoi (dst ! k) of
                Inl e \<Rightarrow> Inl e
              | Inr dstInt \<Rightarrow> Inr (srcInt < dstInt))))"
  by pat_completeness auto
termination
  by (relation "measure (\<lambda>(src, dst, k). length src - k)") auto

declare lessLoop.simps [simp del]

definition dnumLess :: "string \<Rightarrow> string \<Rightarrow> error + bool" where
  "dnumLess a b = lessLoop (splitUnderscore a) (splitUnderscore b) 0"

text \<open>
  \<^verbatim>\<open>sort.Slice\<close> with that comparison.  Go sorts with pattern-defeating quicksort; the
  model inserts each index in turn before the first index it is less than, which
  gives the same list whenever the comparison is a strict order on the indices and
  fails on none of them.
\<close>

fun insertDnum :: "string \<Rightarrow> string list \<Rightarrow> error + string list" where
  "insertDnum x [] = Inr [x]"
| "insertDnum x (y # ys) =
     (case dnumLess x y of
        Inl e \<Rightarrow> Inl e
      | Inr lt \<Rightarrow>
          if lt then Inr (x # y # ys)
          else (case insertDnum x ys of Inl e \<Rightarrow> Inl e | Inr zs \<Rightarrow> Inr (y # zs)))"

fun sortDnums :: "string list \<Rightarrow> string list \<Rightarrow> error + string list" where
  "sortDnums [] acc = Inr acc"
| "sortDnums (x # xs) acc =
     (case insertDnum x acc of Inl e \<Rightarrow> Inl e | Inr acc' \<Rightarrow> sortDnums xs acc')"

definition sqlSelectTableNames :: "database \<Rightarrow> string list" where
  "sqlSelectTableNames db = map fst (jobsTables db) @ map fst (statusTables db)"

fun buildDatasetList :: "string \<Rightarrow> string list \<Rightarrow> string list \<Rightarrow> string list \<Rightarrow> error + dataSetT list" where
  "buildDatasetList pfx jobDnums statusDnums [] = Inr []"
| "buildDatasetList pfx jobDnums statusDnums (dnum # rest) =
     (if dnum \<in> set jobDnums then
        (if dnum \<in> set statusDnums then
           (case buildDatasetList pfx jobDnums statusDnums rest of
              Inl e \<Rightarrow> Inl e
            | Inr dl \<Rightarrow>
                Inr (\<lparr>JobTable = pfx @ ''_jobs_'' @ dnum,
                      JobStatusTable = pfx @ ''_job_status_'' @ dnum,
                      Index = dnum\<rparr> # dl))
         else Inl (AssertFailed ''jobStatusNameMap[dnum]''))
      else Inl (AssertFailed ''jobNameMap[dnum]''))"

definition getDSList :: "bool \<Rightarrow> HandleT \<Rightarrow> error + (dataSetT list \<times> HandleT)" where
  "getDSList refreshFromDB jd =
     (if refreshFromDB then
        (let jd1 = logDB SelectTableNames (jd\<lparr>datasetList := []\<rparr>);
             tableNames = sqlSelectTableNames (dbHandle jd1);
             pj = tablePrefix jd1 @ ''_jobs_'';
             ps = tablePrefix jd1 @ ''_job_status_'';
             dnumList = map (drop (length pj)) (filter (\<lambda>t. take (length pj) t = pj) tableNames);
             statusDnums = map (drop (length ps))
                             (filter (\<lambda>t. take (length pj) t \<noteq> pj \<and> take (length ps) t = ps)
                                tableNames)
         in if dnumList = [] then Inr (datasetList jd1, jd1)
            else
              (case sortDnums dnumList [] of
                 Inl e \<Rightarrow> Inl e
               | Inr sortedDnums \<Rightarrow>
                   (case buildDatasetList (tablePrefix jd1) dnumList statusDnums sortedDnums of
                      Inl e \<Rightarrow> Inl e
                    | Inr dl \<Rightarrow> Inr (dl, jd1\<lparr>datasetList := dl\<rparr>))))
      else Inr (datasetList jd, jd))"

text \<open>\<^verbatim>\<open>SELECT MIN(job_id), MAX(job_id) FROM jobs\<close>: both are \<^verbatim>\<open>NULL\<close> on an empty table.\<close>

definition sqlSelectMinMax :: "database \<Rightarrow> string \<Rightarrow> error + (int option \<times> int option)" where
  "sqlSelectMinMax db jt =
     (case map_of (jobsTables db) jt of
        None \<Rightarrow> Inl (DBError ''relation does not exist'')
      | Some tb \<Rightarrow>
          if jobRows tb = [] then Inr (None, None)
          else Inr (Some (Min (set (map j_job_id (jobRows tb)))),
                    Some (Max (set (map j_job_id (jobRows tb))))))"

fun rangeListLoop :: "dataSetT list \<Rightarrow> nat \<Rightarrow> nat \<Rightarrow> int \<Rightarrow> HandleT \<Rightarrow> error + HandleT" where
  "rangeListLoop [] idx n prevMax jd = Inr jd"
| "rangeListLoop (d # rest) idx n prevMax jd =
     (if Index d \<noteq> [] then
        (case sqlSelectMinMax (dbHandle jd) (JobTable d) of
           Inl e \<Rightarrow> Inl e
         | Inr (minID, maxID) \<Rightarrow>
             (let jd1 = logDB (SelectMinMaxJobID (JobTable d)) jd in
              if int idx < int n - 1 then
                (case minID of
                   None \<Rightarrow> Inl (AssertFailed ''minID.Valid && maxID.Valid'')
                 | Some mn \<Rightarrow>
                (case maxID of
                   None \<Rightarrow> Inl (AssertFailed ''minID.Valid && maxID.Valid'')
                 | Some mx \<Rightarrow>
                     if idx = 0 \<or> prevMax < mn then
                       rangeListLoop rest (Suc idx) n mx
                         (jd1\<lparr>datasetRangeList := datasetRangeList jd1 @
                                [\<lparr>minJobID = mn, maxJobID = mx, ds = d\<rparr>]\<rparr>)
                     else Inl (AssertFailed ''idx == 0 || prevMax < minID.Int64'')))
              else rangeListLoop rest (Suc idx) n prevMax jd1))
      else Inl (AssertFailed ''ds.Index is not empty''))"

definition getDSRangeList :: "bool \<Rightarrow> HandleT \<Rightarrow> error + (dataSetRangeT list \<times> HandleT)" where
  "getDSRangeList refreshFromDB jd =
     (if refreshFromDB then
        (case getDSList True jd of
           Inl e \<Rightarrow> Inl e
         | Inr (dsList, jd1) \<Rightarrow>
             (case rangeListLoop dsList 0 (length dsList) 0 (jd1\<lparr>datasetRangeList := []\<rparr>) of
                Inl e \<Rightarrow> Inl e
              | Inr jd2 \<Rightarrow> Inr (datasetRangeList jd2, jd2)))
      else Inr (datasetRangeList jd, jd))"

section \<open>The journal\<close>

definition addDSOperation :: string where
  "addDSOperation = ''ADD_DS''"

definition migrateCopyOperation :: string where
  "migrateCopyOperation = ''MIGRATE_COPY''"

definition migrateDelOperation :: string where
  "migrateDelOperation = ''MIGRATE_DEL''"

definition zeroDataSet :: dataSetT where
  "zeroDataSet = \<lparr>JobTable = [], JobStatusTable = [], Index = []\<rparr>"

definition journalMarkStart ::
  "string \<Rightarrow> dataSetT list \<Rightarrow> dataSetT \<Rightarrow> HandleT \<Rightarrow> error + (int \<times> HandleT)" where
  "journalMarkStart opType payloadFrom payloadTo jd =
     (if opType = addDSOperation \<or> opType = migrateCopyOperation \<or> opType = migrateDelOperation
      then
        (case journalTable (dbHandle jd) of
           None \<Rightarrow> Inl (DBError ''relation does not exist'')
         | Some jt \<Rightarrow>
             (case nextval (journalSeq jt) of
                (opID, sq) \<Rightarrow>
                  if opID \<in> set (map jr_id (journalRows jt))
                  then Inl (DBError ''duplicate key value violates unique constraint'')
                  else
                    (let row = \<lparr>jr_id = opID, jr_operation = opType, jr_done = False,
                                jr_from = payloadFrom, jr_to = payloadTo\<rparr>;
                         jt' = \<lparr>journalRows = journalRows jt @ [row], journalSeq = sq\<rparr>;
                         jd1 = logDB (InsertJournal opType) jd
                     in Inr (opID, jd1\<lparr>dbHandle := (dbHandle jd1)\<lparr>journalTable := Some jt'\<rparr>\<rparr>))))
      else Inl (AssertFailed ''opType''))"

definition journalMarkDone :: "int \<Rightarrow> HandleT \<Rightarrow> error + HandleT" where
  "journalMarkDone opID jd =
     (case journalTable (dbHandle jd) of
        None \<Rightarrow> Inl (DBError ''relation does not exist'')
      | Some jt \<Rightarrow>
          (let jt' = jt\<lparr>journalRows :=
                        map (\<lambda>r. if jr_id r = opID then r\<lparr>jr_done := True\<rparr> else r) (journalRows jt)\<rparr>;
               jd1 = logDB (UpdateJournalDone opID) jd
           in Inr (jd1\<lparr>dbHandle := (dbHandle jd1)\<lparr>journalTable := Some jt'\<rparr>\<rparr>)))"

section \<open>Adding a dataset\<close>

definition mapDSToLevel :: "dataSetT \<Rightarrow> error + (nat \<times> int list)" where
  "mapDSToLevel d =
     (let indexStr = splitUnderscore (Index d) in
      if length indexStr = 1 then
        (case Atoi (indexStr ! 0) of
           Inl e \<Rightarrow> Inl e
         | Inr indexLevel0 \<Rightarrow> Inr (1, [indexLevel0]))
      else if length indexStr = 2 then
        (case Atoi (indexStr ! 0) of
           Inl e \<Rightarrow> Inl e
         | Inr indexLevel0 \<Rightarrow>
             (case Atoi (indexStr ! 1) of
                Inl e \<Rightarrow> Inl e
              | Inr indexLevel1 \<Rightarrow> Inr (2, [indexLevel0, indexLevel1])))
      else Inl (AssertFailed ''len(indexStr) == 2''))"

definition createTableNames :: "string \<Rightarrow> string \<Rightarrow> string \<times> string" where
  "createTableNames pfx dsIdx = (pfx @ ''_jobs_'' @ dsIdx, pfx @ ''_job_status_'' @ dsIdx)"

fun insertBeforeLoop ::
  "dataSetT list \<Rightarrow> dataSetT list \<Rightarrow> nat \<Rightarrow> dataSetT \<Rightarrow> string \<Rightarrow> error + string" where
  "insertBeforeLoop [] dList idx insertBeforeDS newDSIdx = Inr newDSIdx"
| "insertBeforeLoop (d # rest) dList idx insertBeforeDS newDSIdx =
     (if Index d = Index insertBeforeDS then
        (if idx > 0 then
           (case mapDSToLevel d of
              Inl e \<Rightarrow> Inl e
            | Inr (levels, levelVals) \<Rightarrow>
           (case mapDSToLevel (dList ! (idx - 1)) of
              Inl e \<Rightarrow> Inl e
            | Inr (levelsPre, levelPreVals) \<Rightarrow>
                if levels = 1 then
                  (if levelVals ! 0 = levelPreVals ! 0 + 1 then
                     (if levelsPre = 1 then
                        insertBeforeLoop rest dList (Suc idx) insertBeforeDS
                          (Sprintf_d (levelPreVals ! 0) @ ''_'' @ Sprintf_d 1)
                      else if levelsPre = 2 then
                        insertBeforeLoop rest dList (Suc idx) insertBeforeDS
                          (Sprintf_d (levelPreVals ! 0) @ ''_'' @ Sprintf_d (levelPreVals ! 1 + 1))
                      else Inl (AssertFailed ''levelsPre == 2''))
                   else Inl (AssertFailed ''levelVals[0] == levelPreVals[0]+1''))
                else Inl (AssertFailed ''levels == 1'')))
         else Inl (AssertFailed ''idx > 0''))
      else insertBeforeLoop rest dList (Suc idx) insertBeforeDS newDSIdx)"

definition sqlCreateJobsTable :: "database \<Rightarrow> string \<Rightarrow> error + database" where
  "sqlCreateJobsTable db jt =
     (if jt \<in> set (sqlSelectTableNames db) then Inl (DBError ''relation already exists'')
      else Inr (db\<lparr>jobsTables := jobsTables db @ [(jt, \<lparr>jobRows = [], jobSeq = newSequence\<rparr>)]\<rparr>))"

definition sqlCreateStatusTable :: "database \<Rightarrow> string \<Rightarrow> string \<Rightarrow> error + database" where
  "sqlCreateStatusTable db st jt =
     (if st \<in> set (sqlSelectTableNames db) then Inl (DBError ''relation already exists'')
      else if jt \<notin> set (map fst (jobsTables db)) then Inl (DBError ''relation does not exist'')
      else Inr (db\<lparr>statusTables := statusTables db @
                    [(st, \<lparr>statusRows = [], statusSeq = newSequence, statusRef = jt\<rparr>)]\<rparr>))"

text \<open>
  \<^verbatim>\<open>SELECT setval('<table>_job_id_seq', v)\<close>: the sequence a jobs table owns is named after
  the table and its serial column.
\<close>

definition sqlSetval :: "database \<Rightarrow> string \<Rightarrow> int \<Rightarrow> error + database" where
  "sqlSetval db seqName v =
     (case filter (\<lambda>(t, tb). t @ ''_job_id_seq'' = seqName) (jobsTables db) of
        [] \<Rightarrow> Inl (DBError ''relation does not exist'')
      | (t, tb) # others \<Rightarrow>
          if v < 1 then Inl (DBError ''setval: value is out of bounds'')
          else Inr (db\<lparr>jobsTables := AList.update t (tb\<lparr>jobSeq := setval v\<rparr>) (jobsTables db)\<rparr>))"

text \<open>
  \<^verbatim>\<open>addNewDS\<close>, in three parts: the choice of the new index, the refresh of the in-memory
  lists with the \<^verbatim>\<open>setval\<close> that follows it when the dataset is appended, and the
  function itself.  The deferred \<^verbatim>\<open>journalMarkDone\<close> runs when the function returns.
\<close>

definition newDSIndex :: "bool \<Rightarrow> dataSetT \<Rightarrow> dataSetT list \<Rightarrow> error + string" where
  "newDSIndex appendLast insertBeforeDS dList =
     (if appendLast then
        (if dList = [] then Inr ''1''
         else (case mapDSToLevel (last dList) of
                 Inl e \<Rightarrow> Inl e
               | Inr (levels, levelVals) \<Rightarrow>
                   if levels = 1 then Inr (Sprintf_d (levelVals ! 0 + 1))
                   else Inl (AssertFailed ''levels == 1'')))
      else
        (if length dList > 0 then insertBeforeLoop dList dList 0 insertBeforeDS []
         else Inl (AssertFailed ''len(dList) > 0'')))"

definition addNewDSRefresh :: "string \<Rightarrow> HandleT \<Rightarrow> error + (dataSetT \<times> HandleT)" where
  "addNewDSRefresh newDSIdx jd =
     (case getDSList True jd of
        Inl e \<Rightarrow> Inl e
      | Inr (dList, jd1) \<Rightarrow>
     (case getDSRangeList True jd1 of
        Inl e \<Rightarrow> Inl e
      | Inr (dRangeList, jd2) \<Rightarrow>
          if length dList = length dRangeList + 1 then
            (if length dRangeList > 0 then
               (let newDSMin = maxJobID (last dRangeList);
                    seqName = tablePrefix jd2 @ ''_jobs_'' @ newDSIdx @ ''_job_id_seq''
                in if newDSMin > 0 then
                     (case sqlSetval (dbHandle jd2) seqName newDSMin of
                        Inl e \<Rightarrow> Inl e
                      | Inr db3 \<Rightarrow>
                          Inr (last dList,
                               (logDB (Setval seqName newDSMin) jd2)\<lparr>dbHandle := db3\<rparr>))
                   else Inl (AssertFailed ''newDSMin > 0''))
             else Inr (last dList, jd2))
          else Inl (AssertFailed ''len(dList) == len(dRangeList)+1'')))"

definition addNewDS :: "bool \<Rightarrow> dataSetT \<Rightarrow> HandleT \<Rightarrow> error + (dataSetT \<times> HandleT)" where
  "addNewDS appendLast insertBeforeDS jd =
     (case getDSList True jd of
        Inl e \<Rightarrow> Inl e
      | Inr (dList, jd1) \<Rightarrow>
     (case newDSIndex appendLast insertBeforeDS dList of
        Inl e \<Rightarrow> Inl e
      | Inr newDSIdx \<Rightarrow>
          if newDSIdx \<noteq> [] then
            (case createTableNames (tablePrefix jd1) newDSIdx of
               (newJobTable, newJobStatusTable) \<Rightarrow>
            (let newDS = \<lparr>JobTable = newJobTable, JobStatusTable = newJobStatusTable,
                          Index = newDSIdx\<rparr> in
             case journalMarkStart addDSOperation [] newDS jd1 of
               Inl e \<Rightarrow> Inl e
             | Inr (opID, jd2) \<Rightarrow>
             (case sqlCreateJobsTable (dbHandle jd2) newJobTable of
                Inl e \<Rightarrow> Inl e
              | Inr db3 \<Rightarrow>
             (case sqlCreateStatusTable db3 newJobStatusTable newJobTable of
                Inl e \<Rightarrow> Inl e
              | Inr db4 \<Rightarrow>
                 (let jd4 = (logDB (CreateStatusTable newJobStatusTable newJobTable)
                               (logDB (CreateJobsTable newJobTable) jd2))\<lparr>dbHandle := db4\<rparr> in
                  case (if appendLast then addNewDSRefresh newDSIdx jd4 else Inr (newDS, jd4)) of
                    Inl e \<Rightarrow> Inl e
                  | Inr (retDS, jd5) \<Rightarrow>
                      (case journalMarkDone opID jd5 of
                         Inl e \<Rightarrow> Inl e
                       | Inr jd6 \<Rightarrow> Inr (retDS, jd6)))))))
          else Inl (AssertFailed ''newDSIdx is not empty'')))"

section \<open>Checking whether a dataset is to be migrated\<close>

definition jobDoneMigrateThres :: real where
  "jobDoneMigrateThres = 0.8"

definition jobStatusMigrateThres :: real where
  "jobStatusMigrateThres = 5"

definition sqlCountJobs :: "database \<Rightarrow> string \<Rightarrow> error + int" where
  "sqlCountJobs db jt =
     (case map_of (jobsTables db) jt of
        None \<Rightarrow> Inl (DBError ''relation does not exist'')
      | Some tb \<Rightarrow> Inr (int (length (jobRows tb))))"

text \<open>
  \<^verbatim>\<open>SELECT COUNT(DISTINCT(id)) FROM job_status WHERE job_state = 'succeeded' OR
  job_state = 'aborted'\<close>: the distinct values counted are those of the column \<^verbatim>\<open>id\<close>.
\<close>

definition sqlCountTerminal :: "database \<Rightarrow> string \<Rightarrow> error + int" where
  "sqlCountTerminal db st =
     (case map_of (statusTables db) st of
        None \<Rightarrow> Inl (DBError ''relation does not exist'')
      | Some tb \<Rightarrow>
          Inr (int (length (remdups (map s_id
                 (filter (\<lambda>r. s_job_state r = ''succeeded'' \<or> s_job_state r = ''aborted'')
                    (statusRows tb)))))))"

definition sqlCountStatus :: "database \<Rightarrow> string \<Rightarrow> error + int" where
  "sqlCountStatus db st =
     (case map_of (statusTables db) st of
        None \<Rightarrow> Inl (DBError ''relation does not exist'')
      | Some tb \<Rightarrow> Inr (int (length (statusRows tb))))"

definition sqlMaxCreatedAt :: "database \<Rightarrow> string \<Rightarrow> error + int" where
  "sqlMaxCreatedAt db jt =
     (case map_of (jobsTables db) jt of
        None \<Rightarrow> Inl (DBError ''relation does not exist'')
      | Some tb \<Rightarrow>
          if jobRows tb = [] then Inl (DBError ''Scan: converting NULL to time.Time'')
          else Inr (Max (set (map j_created_at (jobRows tb)))))"

text \<open>
  The two ratios are computed in \<^verbatim>\<open>float64\<close> by the source and in the reals here; the
  two agree on every pair of counts below \<open>2\<^sup>5\<^sup>0\<close>.
\<close>

definition checkIfMigrateDS :: "dataSetT \<Rightarrow> int \<Rightarrow> HandleT \<Rightarrow> error + ((bool \<times> int) \<times> HandleT)" where
  "checkIfMigrateDS d now jd =
     (case sqlCountJobs (dbHandle jd) (JobTable d) of
        Inl e \<Rightarrow> Inl e
      | Inr totalCount \<Rightarrow>
     (case sqlCountTerminal (dbHandle jd) (JobStatusTable d) of
        Inl e \<Rightarrow> Inl e
      | Inr delCount \<Rightarrow>
     (case sqlCountStatus (dbHandle jd) (JobStatusTable d) of
        Inl e \<Rightarrow> Inl e
      | Inr statusCount \<Rightarrow>
          (let jd3 = logDB (SelectCountStatus (JobStatusTable d))
                       (logDB (SelectCountTerminal (JobStatusTable d))
                          (logDB (SelectCountJobs (JobTable d)) jd)) in
           if totalCount = 0 then
             (if delCount = 0 \<and> statusCount = 0 then Inr ((False, 0), jd3)
              else Inl (AssertFailed ''delCount == 0 && statusCount == 0''))
           else
             (case sqlMaxCreatedAt (dbHandle jd3) (JobTable d) of
                Inl e \<Rightarrow> Inl e
              | Inr lastUpdate \<Rightarrow>
                  (let jd4 = logDB (SelectMaxCreatedAt (JobTable d)) jd3 in
                   if dsRetentionPeriod jd4 > 0 \<and> now - lastUpdate < dsRetentionPeriod jd4
                   then Inr ((False, totalCount - delCount), jd4)
                   else if real_of_int delCount / real_of_int totalCount > jobDoneMigrateThres
                           \<or> real_of_int statusCount / real_of_int totalCount > jobStatusMigrateThres
                   then Inr ((True, totalCount - delCount), jd4)
                   else Inr ((False, totalCount - delCount), jd4)))))))"

section \<open>The maintenance loop: selection and migration\<close>

text \<open>
  The loop of \<^verbatim>\<open>mainCheckLoop\<close> that selects the datasets to migrate.  Its result is
  \<^verbatim>\<open>migrateFrom\<close>, \<^verbatim>\<open>insertBeforeDS\<close> and \<^verbatim>\<open>liveCount\<close> as the loop leaves them.
\<close>

fun selectMigrateLoop ::
  "dataSetT list \<Rightarrow> dataSetT list \<Rightarrow> nat \<Rightarrow> int \<Rightarrow> dataSetT list \<Rightarrow> dataSetT \<Rightarrow> int \<Rightarrow> HandleT
     \<Rightarrow> error + ((dataSetT list \<times> dataSetT \<times> int) \<times> HandleT)" where
  "selectMigrateLoop [] dsList idx now migrateFrom insertBeforeDS liveCount jd =
     Inr ((migrateFrom, insertBeforeDS, liveCount), jd)"
| "selectMigrateLoop (d # rest) dsList idx now migrateFrom insertBeforeDS liveCount jd =
     (case checkIfMigrateDS d now jd of
        Inl e \<Rightarrow> Inl e
      | Inr ((ifMigrate, remCount), jd1) \<Rightarrow>
          if int idx < int (length dsList) - 1 \<and> ifMigrate \<and> idx < maxMigrateOnce
             \<and> liveCount < maxDSSize
          then selectMigrateLoop rest dsList (Suc idx) now (migrateFrom @ [d])
                 (dsList ! (idx + 1)) (liveCount + remCount) jd1
          else Inr ((migrateFrom, insertBeforeDS, liveCount), jd1))"

definition selectMigrate ::
  "dataSetT list \<Rightarrow> int \<Rightarrow> HandleT \<Rightarrow> error + ((dataSetT list \<times> dataSetT \<times> int) \<times> HandleT)" where
  "selectMigrate dsList now jd = selectMigrateLoop dsList dsList 0 now [] zeroDataSet 0 jd"

text \<open>\<^verbatim>\<open>migrateJobs\<close>; the query with \<^verbatim>\<open>getAll\<close> set does not read the clock.\<close>

definition migrateJobs :: "dataSetT \<Rightarrow> dataSetT \<Rightarrow> HandleT \<Rightarrow> error + HandleT" where
  "migrateJobs srcDS destDS jd =
     (case getUnprocessedJobsDS srcDS [] False 0 jd of
        Inl e \<Rightarrow> Inl e
      | Inr (unprocessedList, jd1) \<Rightarrow>
     (case getProcessedJobsDS srcDS True
             [''failed'', ''waiting'', ''waiting_retry'', ''executing''] [] 0 0 jd1 of
        Inl e \<Rightarrow> Inl e
      | Inr (retryList, jd2) \<Rightarrow>
     (case storeJobsDS destDS True (unprocessedList @ retryList) jd2 of
        Inl e \<Rightarrow> Inl e
      | Inr jd3 \<Rightarrow>
          (let statusList =
                 map (\<lambda>job. \<lparr>sJobID = JobID job,
                              JobState = JobState (LastJobStatus job),
                              AttemptNum = AttemptNum (LastJobStatus job),
                              ExecTime = ExecTime (LastJobStatus job),
                              RetryTime = RetryTime (LastJobStatus job),
                              ErrorCode = ErrorCode (LastJobStatus job),
                              ErrorResponse = ErrorResponse (LastJobStatus job)\<rparr>) retryList
           in updateJobStatusDS destDS statusList [] jd3))))"

text \<open>The loop of \<^verbatim>\<open>mainCheckLoop\<close> over \<^verbatim>\<open>migrateFrom\<close>.\<close>

fun migrateLoop :: "dataSetT list \<Rightarrow> dataSetT \<Rightarrow> HandleT \<Rightarrow> error + HandleT" where
  "migrateLoop [] migrateTo jd = Inr jd"
| "migrateLoop (d # rest) migrateTo jd =
     (case migrateJobs d migrateTo jd of
        Inl e \<Rightarrow> Inl e
      | Inr jd' \<Rightarrow> migrateLoop rest migrateTo jd')"

section \<open>A small store used to run the functions\<close>

definition exJob :: "int \<Rightarrow> string \<Rightarrow> jobRow" where
  "exJob jid tag =
     \<lparr>j_job_id = jid, j_uuid = ''6ba7b810-9dad-11d1-80b4-00c04fd430c8'', j_custom_val = tag,
      j_event_payload = ''{}'', j_created_at = 0, j_expire_at = 0\<rparr>"

definition exStatus :: "int \<Rightarrow> int \<Rightarrow> string \<Rightarrow> int \<Rightarrow> statusRow" where
  "exStatus sid jid st retry =
     \<lparr>s_id = sid, s_job_id = jid, s_job_state = st, s_attempt = 1, s_exec_time = 0,
      s_retry_time = retry, s_error_code = ''202'', s_error_response = ''{}''\<rparr>"

definition exDS :: "string \<Rightarrow> dataSetT" where
  "exDS idx = \<lparr>JobTable = ''gw_jobs_'' @ idx, JobStatusTable = ''gw_job_status_'' @ idx, Index = idx\<rparr>"

definition exHandleOf :: "database \<Rightarrow> dataSetT list \<Rightarrow> dataSetRangeT list \<Rightarrow> HandleT" where
  "exHandleOf db dsList ranges =
     \<lparr>dbHandle = db, tablePrefix = ''gw'', datasetList = dsList, datasetRangeList = ranges,
      dsRetentionPeriod = 0, dsEmptyResultCache = Map.empty, trace = []\<rparr>"

text \<open>
  Two datasets: \<^verbatim>\<open>1\<close> holds jobs 1 to 3 (succeeded, aborted, failed), \<^verbatim>\<open>2\<close> is the
  newest and holds job 4, not yet processed.
\<close>

definition exDB :: database where
  "exDB =
     \<lparr>jobsTables =
        [(''gw_jobs_1'', \<lparr>jobRows = [exJob 1 ''4'', exJob 2 ''4'', exJob 3 ''4''],
                           jobSeq = \<lparr>last_value = 3, is_called = True\<rparr>\<rparr>),
         (''gw_jobs_2'', \<lparr>jobRows = [exJob 4 ''4''],
                           jobSeq = \<lparr>last_value = 4, is_called = True\<rparr>\<rparr>)],
      statusTables =
        [(''gw_job_status_1'',
            \<lparr>statusRows = [exStatus 1 1 ''succeeded'' 0, exStatus 2 2 ''aborted'' 0,
                            exStatus 3 3 ''failed'' 0],
             statusSeq = \<lparr>last_value = 3, is_called = True\<rparr>, statusRef = ''gw_jobs_1''\<rparr>),
         (''gw_job_status_2'',
            \<lparr>statusRows = [], statusSeq = newSequence, statusRef = ''gw_jobs_2''\<rparr>)],
      journalTable = Some \<lparr>journalRows = [], journalSeq = newSequence\<rparr>\<rparr>"

definition exHandle :: HandleT where
  "exHandle = exHandleOf exDB [exDS ''1'', exDS ''2'']
                [\<lparr>minJobID = 1, maxJobID = 3, ds = exDS ''1''\<rparr>]"

text \<open>A handle on a store with no dataset, as \<^verbatim>\<open>Setup\<close> finds it after \<^verbatim>\<open>clearAll\<close>.\<close>

definition exEmptyHandle :: HandleT where
  "exEmptyHandle = exHandleOf \<lparr>jobsTables = [], statusTables = [],
      journalTable = Some \<lparr>journalRows = [], journalSeq = newSequence\<rparr>\<rparr> [] []"

section \<open>The partition of a batch of statuses by dataset\<close>

text \<open>
  What the specification says \<^verbatim>\<open>UpdateJobStatus\<close> does with a sorted batch: the statuses
  whose job id lies in the range of a dataset go to that dataset, one call of
  \<^verbatim>\<open>updateJobStatusDS\<close> (one transaction) for each dataset, and the statuses whose job id
  lies above every range go to the newest dataset.  These definitions follow the
  specification; the theorems compare \<^verbatim>\<open>UpdateJobStatus\<close> with them.
\<close>

definition inRange :: "dataSetRangeT \<Rightarrow> JobStatusT \<Rightarrow> bool" where
  "inRange r s = (minJobID r \<le> sJobID s \<and> sJobID s \<le> maxJobID r)"

definition aboveRanges :: "dataSetRangeT list \<Rightarrow> JobStatusT \<Rightarrow> bool" where
  "aboveRanges rl s = list_all (\<lambda>r. maxJobID r < sJobID s) rl"

fun updateBatches ::
  "(dataSetT \<times> JobStatusT list) list \<Rightarrow> string list \<Rightarrow> HandleT \<Rightarrow> error + HandleT" where
  "updateBatches [] customValFilters jd = Inr jd"
| "updateBatches ((d, batch) # rest) customValFilters jd =
     (case updateJobStatusDS d batch customValFilters jd of
        Inl e \<Rightarrow> Inl e
      | Inr jd' \<Rightarrow> updateBatches rest customValFilters jd')"

definition txnEvents :: "dataSetT \<times> JobStatusT list \<Rightarrow> event list" where
  "txnEvents db = (case db of (d, batch) \<Rightarrow>
     if batch = [] then []
     else [DB TxnBegin, DB (CopyInStatus (JobStatusTable d) (length batch)), DB TxnCommit, CacheLock])"

definition shardBatches :: "JobStatusT list \<Rightarrow> HandleT \<Rightarrow> (dataSetT \<times> JobStatusT list) list" where
  "shardBatches sl jd =
     map (\<lambda>r. (ds r, filter (inRange r) sl)) (datasetRangeList jd) @
     [(last (datasetList jd), filter (aboveRanges (datasetRangeList jd)) sl)]"


text \<open>
  Three datasets, as in the specification's scenario of a status update across
  datasets: \<^verbatim>\<open>1\<close> holds job ids 1 to 100, \<^verbatim>\<open>2\<close> holds 101 to 200, \<^verbatim>\<open>3\<close> is the newest.
\<close>

definition exDB3 :: database where
  "exDB3 =
     \<lparr>jobsTables =
        [(''gw_jobs_1'', \<lparr>jobRows = [exJob 1 ''4'', exJob 50 ''4'', exJob 100 ''4''],
                           jobSeq = \<lparr>last_value = 100, is_called = True\<rparr>\<rparr>),
         (''gw_jobs_2'', \<lparr>jobRows = [exJob 101 ''4'', exJob 150 ''4'', exJob 200 ''4''],
                           jobSeq = \<lparr>last_value = 200, is_called = True\<rparr>\<rparr>),
         (''gw_jobs_3'', \<lparr>jobRows = [exJob 250 ''4''],
                           jobSeq = \<lparr>last_value = 250, is_called = True\<rparr>\<rparr>)],
      statusTables =
        [(''gw_job_status_1'', \<lparr>statusRows = [], statusSeq = newSequence, statusRef = ''gw_jobs_1''\<rparr>),
         (''gw_job_status_2'', \<lparr>statusRows = [], statusSeq = newSequence, statusRef = ''gw_jobs_2''\<rparr>),
         (''gw_job_status_3'', \<lparr>statusRows = [], statusSeq = newSequence, statusRef = ''gw_jobs_3''\<rparr>)],
      journalTable = Some \<lparr>journalRows = [], journalSeq = newSequence\<rparr>\<rparr>"

definition exHandle3 :: HandleT where
  "exHandle3 = exHandleOf exDB3 [exDS ''1'', exDS ''2'', exDS ''3'']
                [\<lparr>minJobID = 1, maxJobID = 100, ds = exDS ''1''\<rparr>,
                 \<lparr>minJobID = 101, maxJobID = 200, ds = exDS ''2''\<rparr>]"

definition exJobStatus :: "int \<Rightarrow> string \<Rightarrow> JobStatusT" where
  "exJobStatus jid st = \<lparr>sJobID = jid, JobState = st, AttemptNum = 1, ExecTime = 0, RetryTime = 0,
     ErrorCode = ''202'', ErrorResponse = ''{}''\<rparr>"

definition exBatch :: "JobStatusT list" where
  "exBatch = [exJobStatus 250 ''executing'', exJobStatus 50 ''executing'', exJobStatus 150 ''succeeded'']"

definition exAfter3 :: HandleT where
  "exAfter3 = exHandle3
     \<lparr>dbHandle := exDB3\<lparr>statusTables :=
        [(''gw_job_status_1'', \<lparr>statusRows = [exStatus 1 50 ''executing'' 0],
            statusSeq = \<lparr>last_value = 1, is_called = True\<rparr>, statusRef = ''gw_jobs_1''\<rparr>),
         (''gw_job_status_2'', \<lparr>statusRows = [exStatus 1 150 ''succeeded'' 0],
            statusSeq = \<lparr>last_value = 1, is_called = True\<rparr>, statusRef = ''gw_jobs_2''\<rparr>),
         (''gw_job_status_3'', \<lparr>statusRows = [exStatus 1 250 ''executing'' 0],
            statusSeq = \<lparr>last_value = 1, is_called = True\<rparr>, statusRef = ''gw_jobs_3''\<rparr>)]\<rparr>,
      dsEmptyResultCache :=
        [exDS ''1'' \<mapsto> [''4'' \<mapsto> [''executing'' \<mapsto> False]],
         exDS ''2'' \<mapsto> [''4'' \<mapsto> [''succeeded'' \<mapsto> False]],
         exDS ''3'' \<mapsto> [''4'' \<mapsto> [''executing'' \<mapsto> False]]],
      trace :=
        [DB TxnBegin, DB (CopyInStatus ''gw_job_status_1'' 1), DB TxnCommit, CacheLock,
         DB TxnBegin, DB (CopyInStatus ''gw_job_status_2'' 1), DB TxnCommit, CacheLock,
         DB TxnBegin, DB (CopyInStatus ''gw_job_status_3'' 1), DB TxnCommit, CacheLock]\<rparr>"

section \<open>What \<^verbatim>\<open>checkIfMigrateDS\<close> reports for a dataset\<close>

text \<open>The two results of \<^verbatim>\<open>checkIfMigrateDS\<close>, read off a call that returns.\<close>

definition ifMigrateOf :: "int \<Rightarrow> HandleT \<Rightarrow> dataSetT \<Rightarrow> bool" where
  "ifMigrateOf now jd d =
     (case checkIfMigrateDS d now jd of Inl e \<Rightarrow> False | Inr ((ifMigrate, remCount), jd1) \<Rightarrow> ifMigrate)"

definition remCountOf :: "int \<Rightarrow> HandleT \<Rightarrow> dataSetT \<Rightarrow> int" where
  "remCountOf now jd d =
     (case checkIfMigrateDS d now jd of Inl e \<Rightarrow> 0 | Inr ((ifMigrate, remCount), jd1) \<Rightarrow> remCount)"


text \<open>
  More stores.  \<^verbatim>\<open>exDB4\<close>: job 1 was marked succeeded twice, job 2 was never processed.
  \<^verbatim>\<open>exBigDB\<close>: a dataset that grew to 100001 jobs, none of them finished, with 500006
  failed attempts.  \<^verbatim>\<open>exDB6\<close>: five of the six jobs of dataset \<^verbatim>\<open>1\<close> are finished, job 3
  failed after it was executing; dataset \<^verbatim>\<open>2\<close> holds job 7, not processed.
\<close>

definition exDB4 :: database where
  "exDB4 =
     \<lparr>jobsTables =
        [(''gw_jobs_1'', \<lparr>jobRows = [exJob 1 ''4'', exJob 2 ''4''],
                           jobSeq = \<lparr>last_value = 2, is_called = True\<rparr>\<rparr>),
         (''gw_jobs_2'', \<lparr>jobRows = [], jobSeq = \<lparr>last_value = 2, is_called = True\<rparr>\<rparr>)],
      statusTables =
        [(''gw_job_status_1'',
            \<lparr>statusRows = [exStatus 1 1 ''succeeded'' 0, exStatus 2 1 ''succeeded'' 0],
             statusSeq = \<lparr>last_value = 2, is_called = True\<rparr>, statusRef = ''gw_jobs_1''\<rparr>),
         (''gw_job_status_2'',
            \<lparr>statusRows = [], statusSeq = newSequence, statusRef = ''gw_jobs_2''\<rparr>)],
      journalTable = Some \<lparr>journalRows = [], journalSeq = newSequence\<rparr>\<rparr>"

definition exHandle4 :: HandleT where
  "exHandle4 = exHandleOf exDB4 [exDS ''1'', exDS ''2'']
                [\<lparr>minJobID = 1, maxJobID = 2, ds = exDS ''1''\<rparr>]"

definition exBigDB :: database where
  "exBigDB =
     \<lparr>jobsTables =
        [(''gw_jobs_1'', \<lparr>jobRows = map (\<lambda>i. exJob (int i) ''4'') [1..<100002],
                           jobSeq = \<lparr>last_value = 100001, is_called = True\<rparr>\<rparr>),
         (''gw_jobs_2'', \<lparr>jobRows = [], jobSeq = \<lparr>last_value = 100001, is_called = True\<rparr>\<rparr>)],
      statusTables =
        [(''gw_job_status_1'',
            \<lparr>statusRows = map (\<lambda>i. exStatus (int i) (int ((i - 1) mod 100001) + 1) ''failed'' 0)
                             [1..<500007],
             statusSeq = \<lparr>last_value = 500006, is_called = True\<rparr>, statusRef = ''gw_jobs_1''\<rparr>),
         (''gw_job_status_2'',
            \<lparr>statusRows = [], statusSeq = newSequence, statusRef = ''gw_jobs_2''\<rparr>)],
      journalTable = Some \<lparr>journalRows = [], journalSeq = newSequence\<rparr>\<rparr>"

definition exBigHandle :: HandleT where
  "exBigHandle = exHandleOf exBigDB [exDS ''1'', exDS ''2'']
                   [\<lparr>minJobID = 1, maxJobID = 100001, ds = exDS ''1''\<rparr>]"

definition exDB6 :: database where
  "exDB6 =
     \<lparr>jobsTables =
        [(''gw_jobs_1'', \<lparr>jobRows = [exJob 1 ''4'', exJob 2 ''4'', exJob 3 ''4'', exJob 4 ''4'',
                                      exJob 5 ''4'', exJob 6 ''4''],
                           jobSeq = \<lparr>last_value = 6, is_called = True\<rparr>\<rparr>),
         (''gw_jobs_2'', \<lparr>jobRows = [exJob 7 ''4''],
                           jobSeq = \<lparr>last_value = 7, is_called = True\<rparr>\<rparr>),
         (''gw_jobs_3'', \<lparr>jobRows = [], jobSeq = \<lparr>last_value = 7, is_called = True\<rparr>\<rparr>)],
      statusTables =
        [(''gw_job_status_1'',
            \<lparr>statusRows = [exStatus 1 1 ''succeeded'' 0, exStatus 2 2 ''aborted'' 0,
                            exStatus 3 3 ''executing'' 0, exStatus 4 3 ''failed'' 0,
                            exStatus 5 4 ''succeeded'' 0, exStatus 6 5 ''succeeded'' 0,
                            exStatus 7 6 ''succeeded'' 0],
             statusSeq = \<lparr>last_value = 7, is_called = True\<rparr>, statusRef = ''gw_jobs_1''\<rparr>),
         (''gw_job_status_2'',
            \<lparr>statusRows = [], statusSeq = newSequence, statusRef = ''gw_jobs_2''\<rparr>),
         (''gw_job_status_3'',
            \<lparr>statusRows = [], statusSeq = newSequence, statusRef = ''gw_jobs_3''\<rparr>)],
      journalTable = Some \<lparr>journalRows = [], journalSeq = newSequence\<rparr>\<rparr>"

definition exHandle6 :: HandleT where
  "exHandle6 = exHandleOf exDB6 [exDS ''1'', exDS ''2'', exDS ''3'']
                [\<lparr>minJobID = 1, maxJobID = 6, ds = exDS ''1''\<rparr>,
                 \<lparr>minJobID = 7, maxJobID = 7, ds = exDS ''2''\<rparr>]"

text \<open>
  The handle \<^verbatim>\<open>addNewDS(true, ...)\<close> leaves when it is run on \<^verbatim>\<open>exHandle\<close>, and a job to
  store.
\<close>

definition exAfterAdd :: HandleT where
  "exAfterAdd = exHandle
     \<lparr>dbHandle :=
        \<lparr>jobsTables = jobsTables exDB @
           [(''gw_jobs_3'', \<lparr>jobRows = [], jobSeq = \<lparr>last_value = 4, is_called = True\<rparr>\<rparr>)],
         statusTables = statusTables exDB @
           [(''gw_job_status_3'',
               \<lparr>statusRows = [], statusSeq = newSequence, statusRef = ''gw_jobs_3''\<rparr>)],
         journalTable = Some
           \<lparr>journalRows = [\<lparr>jr_id = 1, jr_operation = ''ADD_DS'', jr_done = True, jr_from = [],
                             jr_to = exDS ''3''\<rparr>],
            journalSeq = \<lparr>last_value = 1, is_called = True\<rparr>\<rparr>\<rparr>,
      datasetList := [exDS ''1'', exDS ''2'', exDS ''3''],
      datasetRangeList := [\<lparr>minJobID = 1, maxJobID = 3, ds = exDS ''1''\<rparr>,
                           \<lparr>minJobID = 4, maxJobID = 4, ds = exDS ''2''\<rparr>],
      trace := [DB SelectTableNames, DB (InsertJournal ''ADD_DS''),
                DB (CreateJobsTable ''gw_jobs_3''),
                DB (CreateStatusTable ''gw_job_status_3'' ''gw_jobs_3''),
                DB SelectTableNames, DB SelectTableNames,
                DB (SelectMinMaxJobID ''gw_jobs_1''), DB (SelectMinMaxJobID ''gw_jobs_2''),
                DB (SelectMinMaxJobID ''gw_jobs_3''),
                DB (Setval ''gw_jobs_3_job_id_seq'' 4), DB (UpdateJournalDone 1)]\<rparr>"

definition exNewJob :: JobT where
  "exNewJob = \<lparr>UUID = ''6ba7b810-9dad-11d1-80b4-00c04fd430c8'', JobID = 0, CreatedAt = 0,
      ExpireAt = 0, CustomVal = ''4'', EventPayload = ''{}'', LastJobStatus = zeroJobStatus\<rparr>"

section \<open>Verified properties\<close>

subsection \<open>State validation\<close>

lemma checkValidJobState_iff:
  "(checkValidJobState stateFilters = Inr ()) = (set stateFilters \<subseteq> fst ` set validJobStates)"
proof (induction stateFilters)
  case Nil
  then show ?case by simp
next
  case (Cons st rest)
  show ?case
  proof (cases "map_of validJobStates st")
    case None
    then have "st \<notin> fst ` set validJobStates"
      by (simp add: map_of_eq_None_iff)
    with None show ?thesis by simp
  next
    case (Some ok)
    then have "st \<in> fst ` set validJobStates"
      by (metis domI dom_map_of_conv_image_fst)
    with Some Cons show ?thesis by simp
  qed
qed

lemma getProcessedJobsDS_not_validation:
  assumes "checkValidJobState stateFilters = Inr ()"
  shows "getProcessedJobsDS d getAll stateFilters customValFilters limitCount now jd
           \<noteq> Inl (AssertFailed ''checkValidJobState'')"
  using assms
  by (auto simp: getProcessedJobsDS_def sqlSelectProcessedAll_def sqlSelectProcessed_def Let_def
      split: prod.splits sum.splits option.splits if_splits)

lemma getProcessedLoop_not_validation:
  assumes "checkValidJobState stateFilter = Inr ()"
  shows "getProcessedLoop dsList stateFilter customValFilters count now outJobs jd
           \<noteq> Inl (AssertFailed ''checkValidJobState'')"
  using assms
proof (induction dsList arbitrary: count outJobs jd)
  case Nil
  then show ?case by simp
next
  case (Cons d rest)
  have a: "getProcessedJobsDS d False stateFilter customValFilters count now jd
             \<noteq> Inl (AssertFailed ''checkValidJobState'')"
    using Cons.prems by (rule getProcessedJobsDS_not_validation)
  show ?case
    using a Cons.IH [OF Cons.prems]
    by (auto simp: Let_def split: sum.splits prod.splits)
qed

text \<open>
  C10.  \<^verbatim>\<open>checkValidJobState\<close> accepts a list of filters exactly when each of them is a
  key of \<^verbatim>\<open>validJobStates\<close>, whatever the boolean stored under the key.  The key
  \<^verbatim>\<open>"NP"\<close> is stored with \<^verbatim>\<open>false\<close> (internal), so a list of keys that includes \<^verbatim>\<open>"NP"\<close>
  passes, and \<^verbatim>\<open>GetProcessed\<close> with such a list never fails with the validation
  assertion, for every list of tag filters, count, clock reading and handle.
\<close>

theorem checkValidJobState_accepts_NP:
  assumes "''NP'' \<in> set stateFilter"
    and "set stateFilter \<subseteq> fst ` set validJobStates"
  shows "map_of validJobStates ''NP'' = Some False
       \<and> (checkValidJobState stateFilter = Inr ())
       \<and> GetProcessed stateFilter customValFilters count now jd
           \<noteq> Inl (AssertFailed ''checkValidJobState'')"
proof -
  have v: "checkValidJobState stateFilter = Inr ()"
    using assms(2) by (simp add: checkValidJobState_iff)
  have "GetProcessed stateFilter customValFilters count now jd
          \<noteq> Inl (AssertFailed ''checkValidJobState'')"
    using getProcessedLoop_not_validation [OF v]
    by (simp add: GetProcessed_def)
  then show ?thesis
    using v by (simp add: validJobStates_def)
qed

theorem checkValidJobState_accepts_NP_witness:
  "''NP'' \<in> set [''NP'', ''failed'']
   \<and> set [''NP'', ''failed''] \<subseteq> fst ` set validJobStates
   \<and> map_of validJobStates ''NP'' = Some False
   \<and> checkValidJobState [''NP'', ''failed''] = Inr ()
   \<and> GetProcessed [''NP'', ''failed''] [''4''] 10 5 exHandle
        \<noteq> Inl (AssertFailed ''checkValidJobState'')"
proof -
  have h1: "''NP'' \<in> set [''NP'', ''failed'']" by simp
  have h2: "set [''NP'', ''failed''] \<subseteq> fst ` set validJobStates"
    by (simp add: validJobStates_def)
  show ?thesis
    using h1 h2 checkValidJobState_accepts_NP [OF h1 h2, of "[''4'']" 10 5 exHandle]
    by blast
qed

subsection \<open>Reading with a count of zero\<close>

text \<open>
  C8.  With \<^verbatim>\<open>count = 0\<close>, \<^verbatim>\<open>GetUnprocessed\<close>, \<^verbatim>\<open>GetProcessed\<close>, \<^verbatim>\<open>GetToRetry\<close>,
  \<^verbatim>\<open>GetWaiting\<close> and \<^verbatim>\<open>GetExecuting\<close> return the empty list and the handle as it was:
  nothing is added to the trace of statements and cache accesses, and the cache and the
  store are the ones passed in.  This holds for every list of tag filters and of state
  filters.
\<close>

theorem Get_count_zero:
  "GetUnprocessed customValFilters 0 jd = Inr ([], jd)
   \<and> GetProcessed stateFilter customValFilters 0 now jd = Inr ([], jd)
   \<and> GetToRetry customValFilters 0 now jd = Inr ([], jd)
   \<and> GetWaiting customValFilters 0 now jd = Inr ([], jd)
   \<and> GetExecuting customValFilters 0 now jd = Inr ([], jd)"
  by (simp add: GetUnprocessed_def GetProcessed_def GetToRetry_def GetWaiting_def
      GetExecuting_def)

subsection \<open>Evaluating the functions on the small store\<close>

lemmas ex_defs = exHandle_def exHandleOf_def exDB_def exDS_def exJob_def exStatus_def
  exEmptyHandle_def exHandle3_def exDB3_def exJobStatus_def exBatch_def exDB4_def
  exHandle4_def exBigDB_def exBigHandle_def exDB6_def exHandle6_def

lemmas catalogue_defs = getDSRangeList_def getDSList_def logDB_def sqlSelectTableNames_def
  Let_def dnumLess_def lessLoop.simps Atoi_def digitVal_def sqlSelectMinMax_def

subsection \<open>The range list\<close>

lemma getDSList_refresh_list:
  assumes "getDSList True jd = Inr (dl, jd1)"
  shows "datasetList jd1 = dl \<and> dbHandle jd1 = dbHandle jd \<and> tablePrefix jd1 = tablePrefix jd
       \<and> trace jd1 = trace jd @ [DB SelectTableNames]
       \<and> dsEmptyResultCache jd1 = dsEmptyResultCache jd
       \<and> datasetRangeList jd1 = datasetRangeList jd
       \<and> dsRetentionPeriod jd1 = dsRetentionPeriod jd"
  using assms
  by (auto simp: getDSList_def Let_def logDB_def split: if_splits sum.splits)

lemma rangeListLoop_spec:
  assumes "rangeListLoop dl idx n prevMax jd = Inr jd'"
    and "idx + length dl = n"
  shows "\<exists>rs. datasetRangeList jd' = datasetRangeList jd @ rs
           \<and> map ds rs = butlast dl
           \<and> trace jd' = trace jd @ map (\<lambda>d. DB (SelectMinMaxJobID (JobTable d))) dl
           \<and> dbHandle jd' = dbHandle jd
           \<and> datasetList jd' = datasetList jd
           \<and> tablePrefix jd' = tablePrefix jd
           \<and> dsEmptyResultCache jd' = dsEmptyResultCache jd
           \<and> dsRetentionPeriod jd' = dsRetentionPeriod jd
           \<and> list_all (\<lambda>r. sqlSelectMinMax (dbHandle jd) (JobTable (ds r))
                              = Inr (Some (minJobID r), Some (maxJobID r))) rs
           \<and> successively (\<lambda>a b. maxJobID a < minJobID b) rs
           \<and> (idx > 0 \<longrightarrow> rs \<noteq> [] \<longrightarrow> prevMax < minJobID (hd rs))"
  using assms
proof (induction dl arbitrary: idx prevMax jd)
  case Nil
  then show ?case by simp
next
  case (Cons d rest)
  from Cons.prems(1) have idxne: "Index d \<noteq> []"
    by (auto split: if_splits)
  from Cons.prems(1) idxne obtain minID maxID where
    mm: "sqlSelectMinMax (dbHandle jd) (JobTable d) = Inr (minID, maxID)"
    by (auto split: sum.splits)
  define jd1 where "jd1 = logDB (SelectMinMaxJobID (JobTable d)) jd"
  show ?case
  proof (cases "rest = []")
    case True
    then have "\<not> int idx < int n - 1" using Cons.prems(2) by simp
    with Cons.prems(1) idxne mm True have "jd' = jd1"
      by (simp add: jd1_def Let_def)
    then show ?thesis using True by (simp add: jd1_def logDB_def)
  next
    case False
    then have lt: "int idx < int n - 1" using Cons.prems(2) by (cases rest) auto
    from Cons.prems(1) idxne mm lt obtain mn mx where
      mn: "minID = Some mn" and mx: "maxID = Some mx"
      and ord: "idx = 0 \<or> prevMax < mn"
      and rec: "rangeListLoop rest (Suc idx) n mx
                 (jd1\<lparr>datasetRangeList := datasetRangeList jd1 @
                        [\<lparr>minJobID = mn, maxJobID = mx, ds = d\<rparr>]\<rparr>) = Inr jd'"
      by (auto simp: Let_def jd1_def split: option.splits if_splits)
    have len: "Suc idx + length rest = n" using Cons.prems(2) by simp
    from Cons.IH [OF rec len] obtain rs where
      rs: "datasetRangeList jd' =
             (datasetRangeList jd1 @ [\<lparr>minJobID = mn, maxJobID = mx, ds = d\<rparr>]) @ rs"
        "map ds rs = butlast rest"
        "trace jd' = trace jd1 @ map (\<lambda>d. DB (SelectMinMaxJobID (JobTable d))) rest"
        "dbHandle jd' = dbHandle jd1"
        "datasetList jd' = datasetList jd1"
        "tablePrefix jd' = tablePrefix jd1"
        "dsEmptyResultCache jd' = dsEmptyResultCache jd1"
        "dsRetentionPeriod jd' = dsRetentionPeriod jd1"
        "list_all (\<lambda>r. sqlSelectMinMax (dbHandle jd1) (JobTable (ds r))
                              = Inr (Some (minJobID r), Some (maxJobID r))) rs"
        "successively (\<lambda>a b. maxJobID a < minJobID b) rs"
        "rs \<noteq> [] \<longrightarrow> mx < minJobID (hd rs)"
      by auto
    let ?r = "\<lparr>minJobID = mn, maxJobID = mx, ds = d\<rparr>"
    have succ: "successively (\<lambda>a b. maxJobID a < minJobID b) (?r # rs)"
      using rs(10,11) by (cases rs) auto
    show ?thesis
      apply (rule exI [of _ "?r # rs"])
      using rs False mm mn mx ord succ
      by (auto simp: jd1_def logDB_def)
  qed
qed

lemma getDSRangeList_refresh_spec:
  assumes "getDSRangeList True jd = Inr (rl, jd')"
  shows "datasetRangeList jd' = rl
       \<and> map ds rl = butlast (datasetList jd')
       \<and> (datasetList jd' \<noteq> [] \<longrightarrow> length rl + 1 = length (datasetList jd'))
       \<and> trace jd' = trace jd @ DB SelectTableNames #
                        map (\<lambda>d. DB (SelectMinMaxJobID (JobTable d))) (datasetList jd')
       \<and> list_all (\<lambda>r. sqlSelectMinMax (dbHandle jd) (JobTable (ds r))
                          = Inr (Some (minJobID r), Some (maxJobID r))) rl
       \<and> successively (\<lambda>a b. maxJobID a < minJobID b) rl
       \<and> dbHandle jd' = dbHandle jd \<and> tablePrefix jd' = tablePrefix jd"
proof -
  from assms obtain dl jd1 where
    g: "getDSList True jd = Inr (dl, jd1)"
    by (auto simp: getDSRangeList_def split: sum.splits)
  note g1 = getDSList_refresh_list [OF g]
  from assms g have
    l: "rangeListLoop dl 0 (length dl) 0 (jd1\<lparr>datasetRangeList := []\<rparr>) = Inr jd'"
      and rl: "rl = datasetRangeList jd'"
    by (auto simp: getDSRangeList_def split: sum.splits)
  from rangeListLoop_spec [OF l] obtain rs where
    rs: "datasetRangeList jd' = rs"
        "map ds rs = butlast dl"
        "trace jd' = trace jd1 @ map (\<lambda>d. DB (SelectMinMaxJobID (JobTable d))) dl"
        "dbHandle jd' = dbHandle jd1"
        "datasetList jd' = datasetList jd1"
        "tablePrefix jd' = tablePrefix jd1"
        "list_all (\<lambda>r. sqlSelectMinMax (dbHandle jd1) (JobTable (ds r))
                              = Inr (Some (minJobID r), Some (maxJobID r))) rs"
        "successively (\<lambda>a b. maxJobID a < minJobID b) rs"
    by auto
  have len: "datasetList jd' \<noteq> [] \<longrightarrow> length rl + 1 = length (datasetList jd')"
  proof
    assume ne: "datasetList jd' \<noteq> []"
    have "length rl = length (map ds rs)" using rl rs(1) by simp
    also have "\<dots> = length dl - 1" using rs(2) by simp
    finally show "length rl + 1 = length (datasetList jd')"
      using ne rs(5) g1 by (cases dl) auto
  qed
  show ?thesis
    using rs rl g1 len by simp
qed

text \<open>
  C7, as the code has it.  When \<^verbatim>\<open>getDSRangeList(true)\<close> returns, the range list holds one
  entry for every dataset of the refreshed list but the last, in the order of the list
  (so it is one shorter than a list that is not empty); each entry carries the
  \<^verbatim>\<open>MIN(job_id)\<close> and \<^verbatim>\<open>MAX(job_id)\<close> of its jobs table, both not null; each entry's
  minimum is greater than the maximum of the entry before it.  The
  \<^verbatim>\<open>SELECT MIN(job_id), MAX(job_id)\<close> query is sent for every dataset of the list, the
  last one included: only its result is not stored.
\<close>

theorem getDSRangeList_refresh:
  assumes "getDSRangeList True jd = Inr (rl, jd')"
  shows "datasetRangeList jd' = rl
       \<and> map ds rl = butlast (datasetList jd')
       \<and> (datasetList jd' \<noteq> [] \<longrightarrow> length rl + 1 = length (datasetList jd'))
       \<and> trace jd' = trace jd @ DB SelectTableNames #
                        map (\<lambda>d. DB (SelectMinMaxJobID (JobTable d))) (datasetList jd')
       \<and> list_all (\<lambda>r. sqlSelectMinMax (dbHandle jd) (JobTable (ds r))
                          = Inr (Some (minJobID r), Some (maxJobID r))) rl
       \<and> successively (\<lambda>a b. maxJobID a < minJobID b) rl"
  using getDSRangeList_refresh_spec [OF assms] by simp

theorem getDSRangeList_refresh_witness:
  "getDSRangeList True exHandle =
     Inr ([\<lparr>minJobID = 1, maxJobID = 3, ds = exDS ''1''\<rparr>],
          exHandle\<lparr>trace := [DB SelectTableNames, DB (SelectMinMaxJobID ''gw_jobs_1''),
                              DB (SelectMinMaxJobID ''gw_jobs_2'')]\<rparr>)
   \<and> map ds [\<lparr>minJobID = 1, maxJobID = 3, ds = exDS ''1''\<rparr>] = butlast [exDS ''1'', exDS ''2'']
   \<and> successively (\<lambda>a b. maxJobID a < minJobID b)
        [\<lparr>minJobID = 1, maxJobID = (3::int), ds = exDS ''1''\<rparr>]"
proof -
  have h: "getDSRangeList True exHandle =
     Inr ([\<lparr>minJobID = 1, maxJobID = 3, ds = exDS ''1''\<rparr>],
          exHandle\<lparr>trace := [DB SelectTableNames, DB (SelectMinMaxJobID ''gw_jobs_1''),
                              DB (SelectMinMaxJobID ''gw_jobs_2'')]\<rparr>)"
    by (simp add: ex_defs catalogue_defs)
  show ?thesis
    using h getDSRangeList_refresh [OF h] by (simp add: ex_defs)
qed

text \<open>
  The claim as the specification states it fails on the store of two datasets: the query
  is sent to \<^verbatim>\<open>gw_jobs_2\<close>, the jobs table of the last dataset.  On a store with no dataset
  the range list and the dataset list are both empty.
\<close>

theorem getDSRangeList_queries_last_counterexample:
  "getDSRangeList True exHandle =
     Inr ([\<lparr>minJobID = 1, maxJobID = 3, ds = exDS ''1''\<rparr>],
          exHandle\<lparr>trace := [DB SelectTableNames, DB (SelectMinMaxJobID ''gw_jobs_1''),
                              DB (SelectMinMaxJobID ''gw_jobs_2'')]\<rparr>)
   \<and> datasetList exHandle = [exDS ''1'', exDS ''2'']
   \<and> JobTable (exDS ''2'') = ''gw_jobs_2''
   \<and> getDSRangeList True exEmptyHandle =
       Inr ([], exEmptyHandle\<lparr>trace := [DB SelectTableNames]\<rparr>)
   \<and> datasetList exEmptyHandle = []"
  by (simp add: ex_defs catalogue_defs)

subsection \<open>Routing a batch of statuses\<close>

lemmas update_defs = UpdateJobStatus_def Let_def innerLoop.simps slice_def updateJobStatusDS_def
  sqlCopyInStatus_def nextval_def newSequence_def job_state_type_def statusToRow_def logDB_def
  markClearEmptyResult_def

lemma innerLoop_takeWhile:
  "lastPos \<le> length sl \<Longrightarrow>
   innerLoop sl mx lastPos = lastPos + length (takeWhile (\<lambda>s. \<not> sJobID s > mx) (drop lastPos sl))"
proof (induction sl mx lastPos rule: innerLoop.induct)
  case (1 sl mx i)
  show ?case
  proof (cases "i < length sl")
    case True
    then have d: "drop i sl = sl ! i # drop (Suc i) sl"
      by (simp add: Cons_nth_drop_Suc)
    show ?thesis
    proof (cases "sJobID (sl ! i) > mx")
      case True
      with \<open>i < length sl\<close> d show ?thesis
        by (subst innerLoop.simps) simp
    next
      case False
      with \<open>i < length sl\<close> d 1 show ?thesis
        by (subst innerLoop.simps) simp
    qed
  next
    case False
    with 1 show ?thesis by (subst innerLoop.simps) simp
  qed
qed

lemma slice_takeWhile:
  assumes "lastPos \<le> length sl"
  shows "slice sl lastPos (innerLoop sl mx lastPos) = takeWhile (\<lambda>s. \<not> sJobID s > mx) (drop lastPos sl)"
    and "drop (innerLoop sl mx lastPos) sl = dropWhile (\<lambda>s. \<not> sJobID s > mx) (drop lastPos sl)"
  using assms
  by (simp_all add: innerLoop_takeWhile slice_def takeWhile_eq_take [symmetric] dropWhile_eq_drop add.commute)

lemma sorted_takeWhile_filter:
  "sorted (map f xs) \<Longrightarrow> takeWhile (\<lambda>x. \<not> f x > (c::int)) xs = filter (\<lambda>x. \<not> f x > c) xs"
proof (induction xs)
  case Nil
  then show ?case by simp
next
  case (Cons x xs)
  show ?case
  proof (cases "f x > c")
    case True
    with Cons.prems have "\<forall>y\<in>set xs. f y > c" by auto
    then have "filter (\<lambda>x. \<not> f x > c) xs = []" by (simp add: filter_empty_conv)
    with True show ?thesis by simp
  next
    case False
    with Cons show ?thesis by simp
  qed
qed

lemma sorted_dropWhile_filter:
  "sorted (map f xs) \<Longrightarrow> dropWhile (\<lambda>x. \<not> f x > (c::int)) xs = filter (\<lambda>x. f x > c) xs"
proof (induction xs)
  case Nil
  then show ?case by simp
next
  case (Cons x xs)
  show ?case
  proof (cases "f x > c")
    case True
    with Cons.prems have "\<forall>y\<in>set xs. f y > c" by auto
    then have "filter (\<lambda>x. f x > c) xs = xs" by (simp add: filter_id_conv)
    with True show ?thesis by simp
  next
    case False
    with Cons show ?thesis by simp
  qed
qed

lemma updateBatches_empty:
  "list_all (\<lambda>db. snd db = []) bs \<Longrightarrow> updateBatches bs cvf jd = Inr jd"
  by (induction bs) (auto simp: updateJobStatusDS_def)

lemma updateJobStatusDS_frame:
  assumes "updateJobStatusDS d b cvf jd = Inr jd'"
  shows "datasetList jd' = datasetList jd \<and> datasetRangeList jd' = datasetRangeList jd
       \<and> trace jd' = trace jd @ txnEvents (d, b)"
  using assms
  by (auto simp: updateJobStatusDS_def txnEvents_def Let_def logDB_def markClearEmptyResult_def
      split: if_splits sum.splits)

lemma rangeLoop_spec:
  assumes "rangeLoop rl sl cvf lastPos jd = Inr (lp', jd')"
    and "sorted (map sJobID sl)"
    and "sorted_wrt (\<lambda>a b. maxJobID a < minJobID b) rl"
    and "list_all (\<lambda>r. minJobID r \<le> maxJobID r) rl"
    and "lastPos \<le> length sl"
  shows "updateBatches (map (\<lambda>r. (ds r, filter (inRange r) (drop lastPos sl))) rl) cvf jd = Inr jd'
       \<and> drop lp' sl = filter (aboveRanges rl) (drop lastPos sl)
       \<and> lp' \<le> length sl"
  using assms
proof (induction rl arbitrary: lastPos jd)
  case Nil
  then show ?case by (simp add: aboveRanges_def)
next
  case (Cons r rest)
  let ?xs = "drop lastPos sl"
  let ?P = "\<lambda>s. \<not> sJobID s > maxJobID r"
  from Cons.prems(1) have lt: "lastPos < length sl" and ge: "sJobID (sl ! lastPos) \<ge> minJobID r"
    by (auto split: if_splits)
  have sxs: "sorted (map sJobID ?xs)"
    using Cons.prems(2) by (simp add: sorted_wrt_drop drop_map[symmetric])
  have hd: "?xs = sl ! lastPos # drop (Suc lastPos) sl"
    using lt by (simp add: Cons_nth_drop_Suc)
  have allge: "\<forall>s\<in>set ?xs. minJobID r \<le> sJobID s"
    using sxs ge by (subst (asm) hd, subst hd) auto
  define i where "i = innerLoop sl (maxJobID r) lastPos"
  have batch: "slice sl lastPos i = filter (inRange r) ?xs"
  proof -
    have "slice sl lastPos i = filter ?P ?xs"
      using slice_takeWhile(1) [of lastPos sl "maxJobID r"] Cons.prems(5)
        sorted_takeWhile_filter [OF sxs, of "maxJobID r"]
      by (simp add: i_def)
    also have "\<dots> = filter (inRange r) ?xs"
      using allge by (intro filter_cong) (auto simp: inRange_def)
    finally show ?thesis .
  qed
  have rest_drop: "drop i sl = filter (\<lambda>s. sJobID s > maxJobID r) ?xs"
    using slice_takeWhile(2) [of lastPos sl "maxJobID r"] Cons.prems(5)
      sorted_dropWhile_filter [OF sxs, of "maxJobID r"]
    by (simp add: i_def)
  have ile: "i \<le> length sl" and lpi: "lastPos \<le> i"
    using innerLoop_takeWhile [of lastPos sl "maxJobID r"] Cons.prems(5)
      length_takeWhile_le [of ?P ?xs]
    by (auto simp: i_def)
  have later: "\<forall>r'\<in>set rest. maxJobID r < minJobID r' \<and> maxJobID r < maxJobID r'"
    using Cons.prems(3,4) by (fastforce simp: list_all_iff)
  have later_batches: "filter (inRange r') ?xs = filter (inRange r') (drop i sl)" if "r' \<in> set rest" for r'
  proof -
    have "filter (inRange r') (drop i sl) = filter (\<lambda>s. inRange r' s \<and> sJobID s > maxJobID r) ?xs"
      by (simp add: rest_drop conj_commute)
    also have "\<dots> = filter (inRange r') ?xs"
      using later that by (intro filter_cong) (auto simp: inRange_def)
    finally show ?thesis by simp
  qed
  have tail: "filter (aboveRanges (r # rest)) ?xs = filter (aboveRanges rest) (drop i sl)"
  proof -
    have "filter (aboveRanges (r # rest)) ?xs
            = filter (\<lambda>s. aboveRanges rest s \<and> sJobID s > maxJobID r) ?xs"
      by (intro filter_cong) (auto simp: aboveRanges_def)
    also have "\<dots> = filter (aboveRanges rest) (drop i sl)"
      by (simp add: rest_drop conj_commute)
    finally show ?thesis .
  qed
  have bmap: "map (\<lambda>r'. (ds r', filter (inRange r') ?xs)) rest
            = map (\<lambda>r'. (ds r', filter (inRange r') (drop i sl))) rest"
    using later_batches by simp
  show ?case
  proof (cases "i < length sl")
    case True
    with Cons.prems(1) lt ge obtain jd1 where
      u: "updateJobStatusDS (ds r) (slice sl lastPos i) cvf jd = Inr jd1"
      and rec: "rangeLoop rest sl cvf i jd1 = Inr (lp', jd')"
      by (auto simp: i_def Let_def split: sum.splits)
    have "sorted_wrt (\<lambda>a b. maxJobID a < minJobID b) rest"
      and "list_all (\<lambda>r. minJobID r \<le> maxJobID r) rest"
      using Cons.prems(3,4) by auto
    from Cons.IH [OF rec Cons.prems(2) this ile]
    show ?thesis
      using u batch tail by (simp add: bmap)
  next
    case False
    then have ieq: "i = length sl" using ile by simp
    with Cons.prems(1) lt ge have
      u: "updateJobStatusDS (ds r) (slice sl lastPos i) cvf jd = Inr jd'" and lp: "lp' = i"
      by (auto simp: i_def [symmetric] Let_def split: sum.splits)
    have none: "filter (\<lambda>s. sJobID s > maxJobID r) ?xs = []"
      using rest_drop ieq by simp
    have "list_all (\<lambda>db. snd db = []) (map (\<lambda>r'. (ds r', filter (inRange r') (drop i sl))) rest)"
      using ieq by (simp add: list_all_iff)
    then have "updateBatches (map (\<lambda>r'. (ds r', filter (inRange r') (drop i sl))) rest) cvf jd' = Inr jd'"
      by (rule updateBatches_empty)
    then show ?thesis
      using u batch tail ieq lp by (simp add: bmap)
  qed
qed


lemma updateBatches_append:
  "updateBatches (as @ bs) cvf jd =
     (case updateBatches as cvf jd of Inl e \<Rightarrow> Inl e | Inr jd1 \<Rightarrow> updateBatches bs cvf jd1)"
  by (induction as arbitrary: jd) (auto split: sum.splits)

lemma updateBatches_frame:
  assumes "updateBatches bs cvf jd = Inr jd'"
  shows "datasetList jd' = datasetList jd \<and> datasetRangeList jd' = datasetRangeList jd
       \<and> trace jd' = trace jd @ concat (map txnEvents bs)"
  using assms
proof (induction bs arbitrary: jd)
  case Nil
  then show ?case by simp
next
  case (Cons b bs)
  obtain d batch where b: "b = (d, batch)" by (cases b)
  from Cons.prems b obtain jd1 where
    u: "updateJobStatusDS d batch cvf jd = Inr jd1" and r: "updateBatches bs cvf jd1 = Inr jd'"
    by (auto split: sum.splits)
  show ?case
    using updateJobStatusDS_frame [OF u] Cons.IH [OF r] b by simp
qed

text \<open>
  C3.  \<^verbatim>\<open>UpdateJobStatus\<close> sorts the batch by job id.  When it returns, and the range list
  is the one \<^verbatim>\<open>getDSRangeList\<close> builds (each range's maximum below the minimum of every
  later range, no range empty), its effect is that of one call of \<^verbatim>\<open>updateJobStatusDS\<close>
  for each range, in the order of the range list, with exactly the statuses of the sorted
  batch whose job id lies in the range, followed by one call for the newest dataset with
  the statuses whose job id lies above every range.  Each call with a batch that is not
  empty is one transaction that copies into the status table of that one dataset, as the
  trace shows; a call with an empty batch does nothing.
\<close>

theorem UpdateJobStatus_per_shard:
  assumes "UpdateJobStatus statusList cvf jd = Inr jd'"
    and "sorted_wrt (\<lambda>a b. maxJobID a < minJobID b) (datasetRangeList jd)"
    and "list_all (\<lambda>r. minJobID r \<le> maxJobID r) (datasetRangeList jd)"
  shows "sorted (map sJobID (sort_key sJobID statusList))
       \<and> updateBatches (shardBatches (sort_key sJobID statusList) jd) cvf jd = Inr jd'
       \<and> trace jd' = trace jd @ concat (map txnEvents (shardBatches (sort_key sJobID statusList) jd))"
proof -
  define sl where "sl = sort_key sJobID statusList"
  have srt: "sorted (map sJobID sl)" by (simp add: sl_def)
  from assms(1) obtain lp jd1 where
    rl: "rangeLoop (datasetRangeList jd) sl cvf 0 jd = Inr (lp, jd1)"
    by (auto simp: UpdateJobStatus_def Let_def sl_def split: sum.splits)
  from rangeLoop_spec [OF rl srt assms(2,3)] have
    ub: "updateBatches (map (\<lambda>r. (ds r, filter (inRange r) sl)) (datasetRangeList jd)) cvf jd = Inr jd1"
    and tl: "drop lp sl = filter (aboveRanges (datasetRangeList jd)) sl"
    and lple: "lp \<le> length sl"
    by auto
  have fr: "datasetList jd1 = datasetList jd"
    using updateBatches_frame [OF ub] by simp
  have last: "updateJobStatusDS (last (datasetList jd)) (drop lp sl) cvf jd1 = Inr jd'"
  proof (cases "lp < length sl")
    case True
    with assms(1) rl show ?thesis
      by (auto simp: UpdateJobStatus_def Let_def sl_def [symmetric] fr split: if_splits)
  next
    case False
    with assms(1) rl have "jd' = jd1"
      by (auto simp: UpdateJobStatus_def Let_def sl_def [symmetric])
    with False show ?thesis by (simp add: updateJobStatusDS_def)
  qed
  have all: "updateBatches (shardBatches sl jd) cvf jd = Inr jd'"
    using ub last tl by (simp add: shardBatches_def updateBatches_append)
  show ?thesis
    using srt all updateBatches_frame [OF all] by (simp add: sl_def)
qed

theorem UpdateJobStatus_per_shard_witness:
  "UpdateJobStatus exBatch [''4''] exHandle3 = Inr exAfter3
   \<and> sorted_wrt (\<lambda>a b. maxJobID a < minJobID b) (datasetRangeList exHandle3)
   \<and> list_all (\<lambda>r. minJobID r \<le> maxJobID r) (datasetRangeList exHandle3)
   \<and> shardBatches (sort_key sJobID exBatch) exHandle3 =
        [(exDS ''1'', [exJobStatus 50 ''executing'']),
         (exDS ''2'', [exJobStatus 150 ''succeeded'']),
         (exDS ''3'', [exJobStatus 250 ''executing''])]
   \<and> updateBatches (shardBatches (sort_key sJobID exBatch) exHandle3) [''4''] exHandle3 = Inr exAfter3
   \<and> trace exAfter3 = trace exHandle3 @
        concat (map txnEvents (shardBatches (sort_key sJobID exBatch) exHandle3))"
proof -
  have h1: "UpdateJobStatus exBatch [''4''] exHandle3 = Inr exAfter3"
    by (simp add: ex_defs update_defs exAfter3_def)
  have h2: "sorted_wrt (\<lambda>a b. maxJobID a < minJobID b) (datasetRangeList exHandle3)"
    by (simp add: ex_defs)
  have h3: "list_all (\<lambda>r. minJobID r \<le> maxJobID r) (datasetRangeList exHandle3)"
    by (simp add: ex_defs)
  have b: "shardBatches (sort_key sJobID exBatch) exHandle3 =
        [(exDS ''1'', [exJobStatus 50 ''executing'']),
         (exDS ''2'', [exJobStatus 150 ''succeeded'']),
         (exDS ''3'', [exJobStatus 250 ''executing''])]"
    by (simp add: shardBatches_def ex_defs inRange_def aboveRanges_def)
  show ?thesis
    using h1 h2 h3 b UpdateJobStatus_per_shard [OF h1 h2 h3] by simp
qed


subsection \<open>An empty batch of statuses\<close>

lemma updateJobStatusDS_empty:
  "updateJobStatusDS d [] customValFilters jd = Inr jd"
  by (simp add: updateJobStatusDS_def)

lemma UpdateJobStatus_empty_no_ranges:
  "datasetRangeList jd = [] \<Longrightarrow> UpdateJobStatus [] customValFilters jd = Inr jd"
  by (simp add: UpdateJobStatus_def)

lemma UpdateJobStatus_empty_ranges:
  "datasetRangeList jd \<noteq> [] \<Longrightarrow>
   UpdateJobStatus [] customValFilters jd = Inl (RuntimePanic ''index out of range'')"
  by (cases "datasetRangeList jd") (simp_all add: UpdateJobStatus_def)

text \<open>
  C9.  \<^verbatim>\<open>updateJobStatusDS\<close> with an empty list returns at once and leaves the handle as
  it was: no transaction, no row, no cache access.  \<^verbatim>\<open>UpdateJobStatus\<close> with an empty
  list does not: when the range list has an entry (there are two datasets or more), the
  first iteration over the ranges reads \<^verbatim>\<open>statusList[lastPos]\<close> of the empty list and the
  call panics.
\<close>

theorem UpdateJobStatus_empty_panics:
  "updateJobStatusDS d [] customValFilters jd = Inr jd
   \<and> datasetRangeList exHandle = [\<lparr>minJobID = 1, maxJobID = 3, ds = exDS ''1''\<rparr>]
   \<and> UpdateJobStatus [] [''4''] exHandle = Inl (RuntimePanic ''index out of range'')"
  by (simp add: updateJobStatusDS_def UpdateJobStatus_def ex_defs)

subsection \<open>Selecting the datasets to migrate\<close>

lemmas migrate_check_defs = checkIfMigrateDS_def sqlCountJobs_def sqlCountTerminal_def
  sqlCountStatus_def sqlMaxCreatedAt_def Let_def logDB_def jobDoneMigrateThres_def
  jobStatusMigrateThres_def

lemma checkIfMigrateDS_frame:
  assumes "checkIfMigrateDS d now jd = Inr (v, jd1)"
  shows "dbHandle jd1 = dbHandle jd \<and> dsRetentionPeriod jd1 = dsRetentionPeriod jd
       \<and> datasetList jd1 = datasetList jd \<and> datasetRangeList jd1 = datasetRangeList jd
       \<and> dsEmptyResultCache jd1 = dsEmptyResultCache jd \<and> tablePrefix jd1 = tablePrefix jd"
  using assms
  by (auto simp: checkIfMigrateDS_def Let_def logDB_def split: sum.splits if_splits)

lemma checkIfMigrateDS_verdict_cong:
  assumes "dbHandle jd1 = dbHandle jd" and "dsRetentionPeriod jd1 = dsRetentionPeriod jd"
  shows "ifMigrateOf now jd1 d = ifMigrateOf now jd d \<and> remCountOf now jd1 d = remCountOf now jd d"
  using assms
  by (auto simp: ifMigrateOf_def remCountOf_def checkIfMigrateDS_def Let_def logDB_def
      split: sum.splits if_splits)

lemma selectMigrateLoop_spec:
  assumes "selectMigrateLoop rem dsList idx now mf ib lc jd = Inr ((mf', ib', lc'), jd')"
    and "idx + length rem = length dsList"
  shows "\<exists>sel. mf' = mf @ sel
           \<and> sel = take (length sel) rem
           \<and> (sel \<noteq> [] \<longrightarrow> idx + length sel \<le> length dsList - 1)
           \<and> (sel \<noteq> [] \<longrightarrow> idx + length sel \<le> maxMigrateOnce)
           \<and> list_all (ifMigrateOf now jd) sel
           \<and> lc' = lc + sum_list (map (remCountOf now jd) sel)
           \<and> (\<forall>k<length sel. lc + sum_list (map (remCountOf now jd) (take k sel)) < maxDSSize)
           \<and> (length sel < length rem \<and> idx + length sel < length dsList - 1
                \<and> idx + length sel < maxMigrateOnce \<and> lc' < maxDSSize
                \<longrightarrow> \<not> ifMigrateOf now jd (rem ! length sel))
           \<and> dbHandle jd' = dbHandle jd \<and> dsRetentionPeriod jd' = dsRetentionPeriod jd"
  using assms
proof (induction rem arbitrary: idx mf ib lc jd)
  case Nil
  then show ?case by simp
next
  case (Cons d rest)
  from Cons.prems(1) obtain ifMigrate remCount jd1 where
    c: "checkIfMigrateDS d now jd = Inr ((ifMigrate, remCount), jd1)"
    by (auto split: sum.splits)
  note fr = checkIfMigrateDS_frame [OF c]
  have v: "ifMigrateOf now jd d = ifMigrate" "remCountOf now jd d = remCount"
    using c by (simp_all add: ifMigrateOf_def remCountOf_def)
  have cong: "ifMigrateOf now jd1 = ifMigrateOf now jd" "remCountOf now jd1 = remCountOf now jd"
    using checkIfMigrateDS_verdict_cong [of jd1 jd now] fr by auto
  show ?case
  proof (cases "int idx < int (length dsList) - 1 \<and> ifMigrate \<and> idx < maxMigrateOnce \<and> lc < maxDSSize")
    case True
    with Cons.prems(1) c have
      rec: "selectMigrateLoop rest dsList (Suc idx) now (mf @ [d]) (dsList ! (idx + 1)) (lc + remCount) jd1
              = Inr ((mf', ib', lc'), jd')"
      by simp
    have len: "Suc idx + length rest = length dsList" using Cons.prems(2) by simp
    from Cons.IH [OF rec len] obtain sel where
      s: "mf' = (mf @ [d]) @ sel"
         "sel = take (length sel) rest"
         "sel \<noteq> [] \<longrightarrow> Suc idx + length sel \<le> length dsList - 1"
         "sel \<noteq> [] \<longrightarrow> Suc idx + length sel \<le> maxMigrateOnce"
         "list_all (ifMigrateOf now jd1) sel"
         "lc' = lc + remCount + sum_list (map (remCountOf now jd1) sel)"
         "\<forall>k<length sel. lc + remCount + sum_list (map (remCountOf now jd1) (take k sel)) < maxDSSize"
         "length sel < length rest \<and> Suc idx + length sel < length dsList - 1
                \<and> Suc idx + length sel < maxMigrateOnce \<and> lc' < maxDSSize
                \<longrightarrow> \<not> ifMigrateOf now jd1 (rest ! length sel)"
         "dbHandle jd' = dbHandle jd1" "dsRetentionPeriod jd' = dsRetentionPeriod jd1"
      by auto
    have pre: "\<forall>k<length (d # sel). lc + sum_list (map (remCountOf now jd) (take k (d # sel))) < maxDSSize"
    proof (intro allI impI)
      fix k assume k: "k < length (d # sel)"
      show "lc + sum_list (map (remCountOf now jd) (take k (d # sel))) < maxDSSize"
      proof (cases k)
        case 0
        with True show ?thesis by simp
      next
        case (Suc k')
        with k s(7) [rule_format, of k'] show ?thesis by (simp add: cong v)
      qed
    qed
    have b: "Suc idx \<le> length dsList - 1" "Suc idx \<le> maxMigrateOnce"
      using True by linarith+
    show ?thesis
      apply (rule exI [of _ "d # sel"])
      using s True v fr pre b
      by (cases "sel = []") (simp_all add: cong)
  next
    case False
    with Cons.prems(1) c have "mf' = mf" "lc' = lc" "jd' = jd1"
      by auto
    then show ?thesis
      apply (intro exI [of _ "[]"])
      using False v fr Cons.prems(2) by auto
  qed
qed

text \<open>
  C5, as the code has it.  The datasets selected in one iteration are a prefix of the
  dataset list without its last element, of at most \<^verbatim>\<open>maxMigrateOnce\<close> datasets, each
  reported compactable; \<^verbatim>\<open>liveCount\<close> is the sum of their live counts.  A dataset is
  selected only while the live count accumulated \<^emph>\<open>before\<close> it is below \<^verbatim>\<open>maxDSSize\<close>: the
  test is made before the dataset's own count is added.  When the selection stops short
  of the other three limits, the next dataset was reported not compactable.
\<close>

theorem selectMigrate_prefix:
  assumes "selectMigrate dsList now jd = Inr ((migrateFrom, insertBeforeDS, liveCount), jd')"
  shows "migrateFrom = take (length migrateFrom) (butlast dsList)
       \<and> length migrateFrom \<le> maxMigrateOnce
       \<and> list_all (ifMigrateOf now jd) migrateFrom
       \<and> liveCount = sum_list (map (remCountOf now jd) migrateFrom)
       \<and> (\<forall>k<length migrateFrom.
            sum_list (map (remCountOf now jd) (take k migrateFrom)) < maxDSSize)
       \<and> (length migrateFrom < length (butlast dsList) \<and> length migrateFrom < maxMigrateOnce
            \<and> liveCount < maxDSSize
            \<longrightarrow> \<not> ifMigrateOf now jd (dsList ! length migrateFrom))"
proof -
  from assms have l: "selectMigrateLoop dsList dsList 0 now [] zeroDataSet 0 jd
                        = Inr ((migrateFrom, insertBeforeDS, liveCount), jd')"
    by (simp add: selectMigrate_def)
  from selectMigrateLoop_spec [OF l] obtain sel where
 s: "migrateFrom = sel" "sel = take (length sel) dsList"
       "sel \<noteq> [] \<longrightarrow> length sel \<le> length dsList - 1"
       "sel \<noteq> [] \<longrightarrow> length sel \<le> maxMigrateOnce" "list_all (ifMigrateOf now jd) sel"
       "liveCount = sum_list (map (remCountOf now jd) sel)"
       "\<forall>k<length sel. sum_list (map (remCountOf now jd) (take k sel)) < maxDSSize"
       "length sel < length dsList \<and> length sel < length dsList - 1
                \<and> length sel < maxMigrateOnce \<and> liveCount < maxDSSize
                \<longrightarrow> \<not> ifMigrateOf now jd (dsList ! length sel)"
    by auto
  have "take (length sel) (butlast dsList) = take (length sel) dsList"
    using s(3) by (cases "sel = []") (simp_all add: butlast_conv_take)
  then show ?thesis
    using s by (cases "sel = []") auto
qed



theorem selectMigrate_prefix_witness:
  "selectMigrate [exDS ''1'', exDS ''2'', exDS ''3''] 0 exHandle6 =
     Inr (([exDS ''1''], exDS ''2'', 1),
          exHandle6\<lparr>trace :=
            [DB (SelectCountJobs ''gw_jobs_1''), DB (SelectCountTerminal ''gw_job_status_1''),
             DB (SelectCountStatus ''gw_job_status_1''), DB (SelectMaxCreatedAt ''gw_jobs_1''),
             DB (SelectCountJobs ''gw_jobs_2''), DB (SelectCountTerminal ''gw_job_status_2''),
             DB (SelectCountStatus ''gw_job_status_2''), DB (SelectMaxCreatedAt ''gw_jobs_2'')]\<rparr>)
   \<and> [exDS ''1''] = take (length [exDS ''1'']) (butlast [exDS ''1'', exDS ''2'', exDS ''3''])
   \<and> list_all (ifMigrateOf 0 exHandle6) [exDS ''1'']
   \<and> (1::int) = sum_list (map (remCountOf 0 exHandle6) [exDS ''1''])
   \<and> \<not> ifMigrateOf 0 exHandle6 ([exDS ''1'', exDS ''2'', exDS ''3''] ! length [exDS ''1''])"
proof -
  have h: "selectMigrate [exDS ''1'', exDS ''2'', exDS ''3''] 0 exHandle6 =
     Inr (([exDS ''1''], exDS ''2'', 1),
          exHandle6\<lparr>trace :=
            [DB (SelectCountJobs ''gw_jobs_1''), DB (SelectCountTerminal ''gw_job_status_1''),
             DB (SelectCountStatus ''gw_job_status_1''), DB (SelectMaxCreatedAt ''gw_jobs_1''),
             DB (SelectCountJobs ''gw_jobs_2''), DB (SelectCountTerminal ''gw_job_status_2''),
             DB (SelectCountStatus ''gw_job_status_2''), DB (SelectMaxCreatedAt ''gw_jobs_2'')]\<rparr>)"
    by (simp add: ex_defs migrate_check_defs selectMigrate_def zeroDataSet_def maxDSSize_def
        maxMigrateOnce_def)
  show ?thesis
    using h selectMigrate_prefix [OF h]
    by (simp add: maxDSSize_def maxMigrateOnce_def)
qed

text \<open>
  The claim as the specification states it fails on \<^verbatim>\<open>exBigDB\<close>: dataset \<^verbatim>\<open>1\<close> is
  compactable (more than five status rows for each job) and is selected, since nothing
  was accumulated before it; the live count of the selected prefix is then 100001,
  above \<^verbatim>\<open>maxDSSize\<close>.
\<close>

theorem selectMigrate_exceeds_maxDSSize_counterexample:
  "selectMigrate [exDS ''1'', exDS ''2''] 0 exBigHandle =
     Inr (([exDS ''1''], exDS ''2'', 100001),
          exBigHandle\<lparr>trace :=
            [DB (SelectCountJobs ''gw_jobs_1''), DB (SelectCountTerminal ''gw_job_status_1''),
             DB (SelectCountStatus ''gw_job_status_1''), DB (SelectMaxCreatedAt ''gw_jobs_1''),
             DB (SelectCountJobs ''gw_jobs_2''), DB (SelectCountTerminal ''gw_job_status_2''),
             DB (SelectCountStatus ''gw_job_status_2'')]\<rparr>)
   \<and> maxDSSize < 100001"
  by (simp add: ex_defs migrate_check_defs filter_map comp_def selectMigrate_def zeroDataSet_def
      maxDSSize_def maxMigrateOnce_def)

subsection \<open>The count of finished jobs\<close>

lemma checkIfMigrateDS_no_jobs:
  assumes "checkIfMigrateDS d now jd = Inr (v, jd1)"
    and "sqlCountJobs (dbHandle jd) (JobTable d) = Inr 0"
  shows "v = (False, 0)"
  using assms
  by (auto simp: checkIfMigrateDS_def Let_def split: sum.splits if_splits)

text \<open>
  C4.  The count \<^verbatim>\<open>delCount\<close> is \<^verbatim>\<open>COUNT(DISTINCT(id))\<close> over the status rows in a final
  state: it counts status rows, not jobs.  In \<^verbatim>\<open>exDB4\<close> job 1 has two \<^verbatim>\<open>succeeded\<close> rows
  and job 2 has no status.  One job of two is finished (a fraction of 0.5) and there is
  one status row for each job, so neither threshold of the claim is exceeded; the code
  counts two finished rows for two jobs, reports the dataset compactable and reports no
  live job.
\<close>

theorem checkIfMigrateDS_counts_status_rows:
  "checkIfMigrateDS (exDS ''1'') 0 exHandle4 =
     Inr ((True, 0),
          exHandle4\<lparr>trace :=
            [DB (SelectCountJobs ''gw_jobs_1''), DB (SelectCountTerminal ''gw_job_status_1''),
             DB (SelectCountStatus ''gw_job_status_1''), DB (SelectMaxCreatedAt ''gw_jobs_1'')]\<rparr>)
   \<and> map j_job_id (jobRows (the (map_of (jobsTables exDB4) ''gw_jobs_1''))) = [1, 2]
   \<and> remdups (map s_job_id
        (filter (\<lambda>r. s_job_state r = ''succeeded'' \<or> s_job_state r = ''aborted'')
           (statusRows (the (map_of (statusTables exDB4) ''gw_job_status_1''))))) = [1]
   \<and> length (statusRows (the (map_of (statusTables exDB4) ''gw_job_status_1''))) = 2"
  by (simp add: ex_defs migrate_check_defs)

subsection \<open>The sequence of an appended dataset\<close>

lemmas addDS_defs = addNewDS_def addNewDSRefresh_def newDSIndex_def mapDSToLevel_def
  createTableNames_def journalMarkStart_def journalMarkDone_def addDSOperation_def
  migrateCopyOperation_def migrateDelOperation_def
  sqlCreateJobsTable_def sqlCreateStatusTable_def sqlSetval_def Sprintf_d_def showNat.simps
  nextval_def newSequence_def setval_def zeroDataSet_def

lemma map_of_filter_first:
  "filter (\<lambda>(t, tb). t = k) al = (t, tb) # others \<Longrightarrow> map_of al k = Some tb \<and> t = k"
proof (induction al)
  case Nil
  then show ?case by simp
next
  case (Cons a al)
  then show ?case by (cases a) (auto split: if_splits)
qed

lemma sqlSetval_spec:
  assumes "sqlSetval db (jt @ ''_job_id_seq'') v = Inr db'"
  shows "\<exists>tb. map_of (jobsTables db) jt = Some tb
           \<and> jobsTables db' = AList.update jt (tb\<lparr>jobSeq := setval v\<rparr>) (jobsTables db)
           \<and> statusTables db' = statusTables db \<and> journalTable db' = journalTable db"
proof -
  have eq: "(\<lambda>(t, tb). t @ ''_job_id_seq'' = jt @ ''_job_id_seq'') = (\<lambda>(t, tb :: jobsTableT). t = jt)"
    by auto
  from assms obtain t tb others where
    f: "filter (\<lambda>(t, tb). t = jt) (jobsTables db) = (t, tb) # others"
    and r: "db' = db\<lparr>jobsTables := AList.update t (tb\<lparr>jobSeq := setval v\<rparr>) (jobsTables db)\<rparr>"
    by (auto simp: sqlSetval_def eq split: list.splits if_splits)
  from map_of_filter_first [OF f] r show ?thesis by auto
qed


lemma journalMarkStart_frame:
  assumes "journalMarkStart opType f t jd = Inr (opID, jd2)"
  shows "jobsTables (dbHandle jd2) = jobsTables (dbHandle jd)
       \<and> statusTables (dbHandle jd2) = statusTables (dbHandle jd)
       \<and> tablePrefix jd2 = tablePrefix jd
       \<and> trace jd2 = trace jd @ [DB (InsertJournal opType)]
       \<and> datasetList jd2 = datasetList jd \<and> datasetRangeList jd2 = datasetRangeList jd"
  using assms
  by (auto simp: journalMarkStart_def Let_def logDB_def split: if_splits option.splits prod.splits)

lemma journalMarkDone_frame:
  assumes "journalMarkDone opID jd = Inr jd2"
  shows "jobsTables (dbHandle jd2) = jobsTables (dbHandle jd)
       \<and> statusTables (dbHandle jd2) = statusTables (dbHandle jd)
       \<and> tablePrefix jd2 = tablePrefix jd
       \<and> trace jd2 = trace jd @ [DB (UpdateJournalDone opID)]
       \<and> datasetList jd2 = datasetList jd \<and> datasetRangeList jd2 = datasetRangeList jd"
  using assms
  by (auto simp: journalMarkDone_def Let_def logDB_def split: option.splits)

lemma sqlCreateJobsTable_spec:
  assumes "sqlCreateJobsTable db jt = Inr db3"
  shows "jt \<notin> set (map fst (jobsTables db))
       \<and> jobsTables db3 = jobsTables db @ [(jt, \<lparr>jobRows = [], jobSeq = newSequence\<rparr>)]
       \<and> statusTables db3 = statusTables db \<and> journalTable db3 = journalTable db"
  using assms
  by (auto simp: sqlCreateJobsTable_def sqlSelectTableNames_def split: if_splits)

lemma sqlCreateStatusTable_spec:
  assumes "sqlCreateStatusTable db st jt = Inr db4"
  shows "jobsTables db4 = jobsTables db \<and> journalTable db4 = journalTable db"
  using assms
  by (auto simp: sqlCreateStatusTable_def split: if_splits)

lemma sqlSelectMinMax_cong:
  assumes "\<And>tb. map_of (jobsTables db) x = Some tb \<Longrightarrow>
             \<exists>tb'. map_of (jobsTables db') x = Some tb' \<and> jobRows tb' = jobRows tb"
    and "map_of (jobsTables db) x = None \<Longrightarrow> map_of (jobsTables db') x = None"
  shows "sqlSelectMinMax db' x = sqlSelectMinMax db x"
proof (cases "map_of (jobsTables db) x")
  case None
  with assms(2) show ?thesis by (simp add: sqlSelectMinMax_def)
next
  case (Some tb)
  with assms(1) obtain tb' where "map_of (jobsTables db') x = Some tb'" "jobRows tb' = jobRows tb"
    by blast
  with Some show ?thesis by (simp add: sqlSelectMinMax_def)
qed



lemma getDSList_cong:
  assumes "dbHandle jd1 = dbHandle jd" and "tablePrefix jd1 = tablePrefix jd"
    and "getDSList True jd = Inr (dl, jda)" and "getDSList True jd1 = Inr (dl', jdb)"
  shows "dl' = dl"
  using assms
  by (auto simp: getDSList_def Let_def logDB_def split: if_splits sum.splits)

lemma addNewDSRefresh_spec:
  assumes "addNewDSRefresh newDSIdx jd = Inr (retDS, jd')"
    and "datasetRangeList jd' \<noteq> []"
  shows "\<exists>mn.
      retDS = last (datasetList jd')
    \<and> length (datasetList jd') = length (datasetRangeList jd') + 1
    \<and> sqlSelectMinMax (dbHandle jd) (JobTable (last (butlast (datasetList jd'))))
        = Inr (Some mn, Some (maxJobID (last (datasetRangeList jd'))))
    \<and> sqlSetval (dbHandle jd) (tablePrefix jd @ ''_jobs_'' @ newDSIdx @ ''_job_id_seq'')
         (maxJobID (last (datasetRangeList jd'))) = Inr (dbHandle jd')
    \<and> tablePrefix jd' = tablePrefix jd
    \<and> trace jd' = trace jd @ [DB SelectTableNames, DB SelectTableNames] @
         map (\<lambda>d. DB (SelectMinMaxJobID (JobTable d))) (datasetList jd') @
         [DB (Setval (tablePrefix jd @ ''_jobs_'' @ newDSIdx @ ''_job_id_seq'')
                (maxJobID (last (datasetRangeList jd'))))]"
proof -
  from assms(1) obtain dList jd1 where g: "getDSList True jd = Inr (dList, jd1)"
    by (auto simp: addNewDSRefresh_def split: sum.splits)
  from assms(1) g obtain rl jd2 where r: "getDSRangeList True jd1 = Inr (rl, jd2)"
    by (auto simp: addNewDSRefresh_def split: sum.splits)
  note g1 = getDSList_refresh_list [OF g]
  note r1 = getDSRangeList_refresh_spec [OF r]
  from assms(1) g r have len: "length dList = length rl + 1"
    by (auto simp: addNewDSRefresh_def split: if_splits)
  let ?seq = "tablePrefix jd2 @ ''_jobs_'' @ newDSIdx @ ''_job_id_seq''"
  have rlne: "rl \<noteq> []"
  proof
    assume "rl = []"
    with assms(1) g r len have "jd' = jd2"
      by (auto simp: addNewDSRefresh_def)
    with r1 \<open>rl = []\<close> assms(2) show False by simp
  qed
  with assms(1) g r len obtain db3 where
    sv: "sqlSetval (dbHandle jd2) ?seq (maxJobID (last rl)) = Inr db3"
    and res: "retDS = last dList"
      "jd' = (logDB (Setval ?seq (maxJobID (last rl))) jd2)\<lparr>dbHandle := db3\<rparr>"
    by (auto simp: addNewDSRefresh_def Let_def split: if_splits sum.splits)
  have dl: "datasetList jd2 = dList"
  proof -
    from r obtain dl' jdb where g': "getDSList True jd1 = Inr (dl', jdb)"
      and l: "rangeListLoop dl' 0 (length dl') 0 (jdb\<lparr>datasetRangeList := []\<rparr>) = Inr jd2"
      by (auto simp: getDSRangeList_def split: sum.splits)
    have "dl' = dList"
      using getDSList_cong [OF _ _ g g'] g1 by simp
    moreover have "datasetList jd2 = dl'"
      using rangeListLoop_spec [OF l] getDSList_refresh_list [OF g'] by auto
    ultimately show ?thesis by simp
  qed
  have lastds: "ds (last rl) = last (butlast dList)"
  proof -
    have "ds (last rl) = last (map ds rl)" using rlne by (simp add: last_map)
    then show ?thesis using r1 dl by simp
  qed
  have "list_all (\<lambda>r. sqlSelectMinMax (dbHandle jd1) (JobTable (ds r))
                          = Inr (Some (minJobID r), Some (maxJobID r))) rl"
    using r1 by simp
  then have mm: "sqlSelectMinMax (dbHandle jd1) (JobTable (ds (last rl)))
                   = Inr (Some (minJobID (last rl)), Some (maxJobID (last rl)))"
    using rlne by (simp add: list_all_iff)
  show ?thesis
    apply (rule exI [of _ "minJobID (last rl)"])
    using res sv mm lastds dl g1 r1 len
    by (simp add: logDB_def)
qed

text \<open>
  C2, as the code has it.  When \<^verbatim>\<open>addNewDS\<close> appends a dataset and returns with a range
  list that is not empty, it has created the jobs table of the new index and sent
  exactly one \<^verbatim>\<open>setval\<close>, on that table's sequence, with the value \<^verbatim>\<open>prevMax\<close>: the
  \<^verbatim>\<open>maxJobID\<close> of the last range entry, which is the \<^verbatim>\<open>MAX(job_id)\<close> of the dataset before
  the last of the refreshed list.  The value is the maximum itself, not one past it;
  \<^verbatim>\<open>setval\<close> marks it as used, so the first job stored into the new table without a copied
  id gets \<^verbatim>\<open>prevMax + 1\<close>.
\<close>

theorem addNewDS_sets_sequence:
  assumes "addNewDS True insertBeforeDS jd = Inr (newDS, jd')"
    and "datasetRangeList jd' \<noteq> []"
  shows "\<exists>newDSIdx opID mn.
      trace jd' = trace jd @
        [DB SelectTableNames, DB (InsertJournal addDSOperation),
         DB (CreateJobsTable (tablePrefix jd @ ''_jobs_'' @ newDSIdx)),
         DB (CreateStatusTable (tablePrefix jd @ ''_job_status_'' @ newDSIdx)
               (tablePrefix jd @ ''_jobs_'' @ newDSIdx)),
         DB SelectTableNames, DB SelectTableNames] @
        map (\<lambda>d. DB (SelectMinMaxJobID (JobTable d))) (datasetList jd') @
        [DB (Setval ((tablePrefix jd @ ''_jobs_'' @ newDSIdx) @ ''_job_id_seq'')
               (maxJobID (last (datasetRangeList jd')))),
         DB (UpdateJournalDone opID)]
    \<and> tablePrefix jd @ ''_jobs_'' @ newDSIdx \<notin> set (map fst (jobsTables (dbHandle jd)))
    \<and> newDS = last (datasetList jd')
    \<and> sqlSelectMinMax (dbHandle jd') (JobTable (last (butlast (datasetList jd'))))
        = Inr (Some mn, Some (maxJobID (last (datasetRangeList jd'))))
    \<and> map_of (jobsTables (dbHandle jd')) (tablePrefix jd @ ''_jobs_'' @ newDSIdx)
        = Some \<lparr>jobRows = [],
                jobSeq = \<lparr>last_value = maxJobID (last (datasetRangeList jd')), is_called = True\<rparr>\<rparr>
    \<and> (\<forall>d job. JobTable d = tablePrefix jd @ ''_jobs_'' @ newDSIdx \<longrightarrow>
          (\<exists>jd''. storeJobsDS d False [job] jd' = Inr jd''
             \<and> map_of (jobsTables (dbHandle jd'')) (tablePrefix jd @ ''_jobs_'' @ newDSIdx)
                 = Some \<lparr>jobRows = [jobToRow (maxJobID (last (datasetRangeList jd')) + 1) job],
                         jobSeq = \<lparr>last_value = maxJobID (last (datasetRangeList jd')) + 1,
                                   is_called = True\<rparr>\<rparr>))"
proof -
  from assms(1) obtain dList jd1 where g: "getDSList True jd = Inr (dList, jd1)"
    by (auto simp: addNewDS_def split: sum.splits)
  note g1 = getDSList_refresh_list [OF g]
  from assms(1) g obtain newDSIdx where
    ix: "newDSIndex True insertBeforeDS dList = Inr newDSIdx" and ne: "newDSIdx \<noteq> []"
    by (auto simp: addNewDS_def split: sum.splits if_splits)
  define jt where "jt = tablePrefix jd @ ''_jobs_'' @ newDSIdx"
  define st where "st = tablePrefix jd @ ''_job_status_'' @ newDSIdx"
  define nds where "nds = \<lparr>JobTable = jt, JobStatusTable = st, Index = newDSIdx\<rparr>"
  from assms(1) g ix ne obtain opID jd2 where
    jm: "journalMarkStart addDSOperation [] nds jd1 = Inr (opID, jd2)"
    by (auto simp: addNewDS_def createTableNames_def Let_def g1 jt_def st_def nds_def
        split: sum.splits)
  note jm1 = journalMarkStart_frame [OF jm]
  from assms(1) g ix ne jm obtain db3 where
    c1: "sqlCreateJobsTable (dbHandle jd2) jt = Inr db3"
    by (auto simp: addNewDS_def createTableNames_def Let_def g1 jt_def st_def nds_def
        split: sum.splits)
  from assms(1) g ix ne jm c1 obtain db4 where
    c2: "sqlCreateStatusTable db3 st jt = Inr db4"
    by (auto simp: addNewDS_def createTableNames_def Let_def g1 jt_def st_def nds_def
        split: sum.splits)
  define jd4 where
    "jd4 = (logDB (CreateStatusTable st jt) (logDB (CreateJobsTable jt) jd2))\<lparr>dbHandle := db4\<rparr>"
  from assms(1) g ix ne jm c1 c2 obtain jd5 where
    rf: "addNewDSRefresh newDSIdx jd4 = Inr (newDS, jd5)"
    and jdone: "journalMarkDone opID jd5 = Inr jd'"
    by (auto simp: addNewDS_def createTableNames_def Let_def g1 jt_def st_def nds_def jd4_def
        split: sum.splits)
  note jd1' = journalMarkDone_frame [OF jdone]
  have rne: "datasetRangeList jd5 \<noteq> []" using assms(2) jd1' by simp
  have p4: "tablePrefix jd4 = tablePrefix jd" "dbHandle jd4 = db4"
    "trace jd4 = trace jd @ [DB SelectTableNames, DB (InsertJournal addDSOperation),
         DB (CreateJobsTable jt), DB (CreateStatusTable st jt)]"
    using g1 jm1 by (simp_all add: jd4_def logDB_def)
  from addNewDSRefresh_spec [OF rf rne] obtain mn where
    a: "newDS = last (datasetList jd5)"
       "sqlSelectMinMax db4 (JobTable (last (butlast (datasetList jd5))))
          = Inr (Some mn, Some (maxJobID (last (datasetRangeList jd5))))"
       "sqlSetval db4 (jt @ ''_job_id_seq'') (maxJobID (last (datasetRangeList jd5)))
          = Inr (dbHandle jd5)"
       "trace jd5 = trace jd4 @ [DB SelectTableNames, DB SelectTableNames] @
         map (\<lambda>d. DB (SelectMinMaxJobID (JobTable d))) (datasetList jd5) @
         [DB (Setval (jt @ ''_job_id_seq'') (maxJobID (last (datasetRangeList jd5))))]"
    by (auto simp: p4 jt_def)
  define prevMax where "prevMax = maxJobID (last (datasetRangeList jd5))"
  note c1s = sqlCreateJobsTable_spec [OF c1]
  note c2s = sqlCreateStatusTable_spec [OF c2]
  have new: "jt \<notin> set (map fst (jobsTables (dbHandle jd)))"
    using c1s jm1 g1 by simp
  have jt4: "jobsTables db4 = jobsTables (dbHandle jd) @ [(jt, \<lparr>jobRows = [], jobSeq = newSequence\<rparr>)]"
    using c1s c2s jm1 g1 by simp
  have "map_of (jobsTables (dbHandle jd)) jt = None"
    using new by (simp add: map_of_eq_None_iff)
  then have m4: "map_of (jobsTables db4) jt = Some \<lparr>jobRows = [], jobSeq = newSequence\<rparr>"
    by (simp add: jt4 map_add_def)
  from sqlSetval_spec [OF a(3)] m4 have
    jt5: "jobsTables (dbHandle jd5) =
            AList.update jt \<lparr>jobRows = [], jobSeq = setval prevMax\<rparr> (jobsTables db4)"
    by (auto simp: prevMax_def)
  have jtf: "jobsTables (dbHandle jd') =
            AList.update jt \<lparr>jobRows = [], jobSeq = setval prevMax\<rparr> (jobsTables db4)"
    using jt5 jd1' by simp
  have mf: "map_of (jobsTables (dbHandle jd')) jt = Some \<lparr>jobRows = [], jobSeq = setval prevMax\<rparr>"
    by (simp add: jtf update_conv')
  have mmf: "sqlSelectMinMax (dbHandle jd') x = sqlSelectMinMax db4 x" for x
    by (rule sqlSelectMinMax_cong) (auto simp: jtf update_conv' m4)
  have store: "\<exists>jd''. storeJobsDS d False [job] jd' = Inr jd''
             \<and> map_of (jobsTables (dbHandle jd'')) jt
                 = Some \<lparr>jobRows = [jobToRow (prevMax + 1) job],
                         jobSeq = \<lparr>last_value = prevMax + 1, is_called = True\<rparr>\<rparr>"
    if "JobTable d = jt" for d job
    using that mf
    by (simp add: storeJobsDS_def sqlCopyInJobs_def nextval_def setval_def Let_def update_conv'
        markClearEmptyResult_def logDB_def)
  show ?thesis
    apply (rule exI [of _ newDSIdx], rule exI [of _ opID], rule exI [of _ mn])
    using a p4 jd1' new mf mmf store
    unfolding jt_def st_def prevMax_def setval_def
    by simp
qed


theorem addNewDS_sets_sequence_witness:
  "addNewDS True zeroDataSet exHandle = Inr (exDS ''3'', exAfterAdd)
   \<and> datasetRangeList exAfterAdd \<noteq> []
   \<and> maxJobID (last (datasetRangeList exAfterAdd)) = 4
   \<and> map_of (jobsTables (dbHandle exAfterAdd)) ''gw_jobs_3''
       = Some \<lparr>jobRows = [], jobSeq = \<lparr>last_value = 4, is_called = True\<rparr>\<rparr>
   \<and> Store [exNewJob] exAfterAdd =
       Inr (exAfterAdd
            \<lparr>dbHandle := (dbHandle exAfterAdd)\<lparr>jobsTables := jobsTables exDB @
               [(''gw_jobs_3'', \<lparr>jobRows = [exJob 5 ''4''],
                                  jobSeq = \<lparr>last_value = 5, is_called = True\<rparr>\<rparr>)]\<rparr>,
             trace := trace exAfterAdd @
               [DB TxnBegin, DB (CopyInJobs ''gw_jobs_3'' 1), DB TxnCommit, CacheLock]\<rparr>)"
proof -
  have h1: "addNewDS True zeroDataSet exHandle = Inr (exDS ''3'', exAfterAdd)"
    by (simp add: ex_defs exAfterAdd_def addDS_defs catalogue_defs)
  have h2: "datasetRangeList exAfterAdd \<noteq> []"
    by (simp add: exAfterAdd_def)
  have st: "Store [exNewJob] exAfterAdd =
       Inr (exAfterAdd
            \<lparr>dbHandle := (dbHandle exAfterAdd)\<lparr>jobsTables := jobsTables exDB @
               [(''gw_jobs_3'', \<lparr>jobRows = [exJob 5 ''4''],
                                  jobSeq = \<lparr>last_value = 5, is_called = True\<rparr>\<rparr>)]\<rparr>,
             trace := trace exAfterAdd @
               [DB TxnBegin, DB (CopyInJobs ''gw_jobs_3'' 1), DB TxnCommit, CacheLock]\<rparr>)"
    by (simp add: ex_defs exAfterAdd_def exNewJob_def Store_def storeJobsDS_def
        sqlCopyInJobs_def nextval_def jobToRow_def logDB_def markClearEmptyResult_def Let_def)
  show ?thesis
    using h1 h2 st addNewDS_sets_sequence [OF h1 h2]
    by (simp add: exAfterAdd_def ex_defs)
qed

text \<open>
  The claim as the specification states it fails on \<^verbatim>\<open>exHandle\<close>: the maximum job id of
  the previous dataset \<^verbatim>\<open>2\<close> is 4, and the value passed to \<^verbatim>\<open>setval\<close> is 4, not 5.
\<close>

theorem addNewDS_setval_value_counterexample:
  "addNewDS True zeroDataSet exHandle = Inr (exDS ''3'', exAfterAdd)
   \<and> sqlSelectMinMax (dbHandle exHandle) (JobTable (exDS ''2'')) = Inr (Some 4, Some 4)
   \<and> DB (Setval ''gw_jobs_3_job_id_seq'' 4) \<in> set (trace exAfterAdd)
   \<and> DB (Setval ''gw_jobs_3_job_id_seq'' 5) \<notin> set (trace exAfterAdd)"
  by (simp add: ex_defs exAfterAdd_def addDS_defs catalogue_defs)

end
